theory Spec2Isabelle
  imports Complex_Main "HOL-Library.Word"
begin

section \<open>Key Transparency: HTTP gateway and monitor start-up\<close>

text \<open>
  The development embeds two parts of the repository: the generated reverse proxy that
  translates HTTP/JSON requests into calls of the KeyTransparency client, and the start-up
  code of the monitor binary (retry of the first call, transport credentials).
\<close>

subsection \<open>Status codes and errors\<close>

text \<open>The status codes of package \<open>codes\<close>, in numeric order.\<close>

datatype code =
    OK | Canceled | Unknown | InvalidArgument | DeadlineExceeded | NotFound
  | AlreadyExists | PermissionDenied | ResourceExhausted | FailedPrecondition
  | Aborted | OutOfRange | Unimplemented | Internal | Unavailable | DataLoss
  | Unauthenticated

text \<open>An error made by \<open>status.Errorf\<close>: a code and a formatted message.\<close>

record status =
  Code :: code
  Message :: string

definition Errorf :: "code \<Rightarrow> string \<Rightarrow> status" where
  "Errorf c msg = \<lparr>Code = c, Message = msg\<rparr>"

subsection \<open>Path patterns of the gateway runtime\<close>

text \<open>
  \<open>runtime.NewPattern\<close>, \<open>runtime.MustPattern\<close> and \<open>Pattern.Match\<close> belong to the
  grpc-gateway library, which the generated file imports. The pattern tables themselves are
  in the generated file; the interpreter below follows the library: a pattern is a small
  stack program over the path components, given as pairs of an opcode and an operand.
\<close>

datatype OpCode = OpNop | OpPush | OpLitPush | OpPushM | OpConcatN | OpCapture

fun op_code :: "int \<Rightarrow> OpCode option" where
  "op_code n =
     (if n = 0 then Some OpNop else if n = 1 then Some OpPush
      else if n = 2 then Some OpLitPush else if n = 3 then Some OpPushM
      else if n = 4 then Some OpConcatN else if n = 5 then Some OpCapture
      else None)"

record Pattern =
  ops :: "(OpCode \<times> nat) list"
  pool :: "string list"
  vars :: "string list"
  tailLen :: nat
  verb :: string

text \<open>
  The validation loop of \<open>NewPattern\<close>. The state is the typed operations so far, the
  stack depth, the number of components after a deep wildcard, whether a deep wildcard has
  been seen, and the variables captured so far. An invalid table gives \<open>None\<close>.
\<close>

fun new_pattern_loop ::
  "string list \<Rightarrow> int list \<Rightarrow> (OpCode \<times> nat) list \<Rightarrow> int \<Rightarrow> nat \<Rightarrow> bool \<Rightarrow> string list
     \<Rightarrow> ((OpCode \<times> nat) list \<times> nat \<times> string list) option" where
  "new_pattern_loop pl [] typed stack tlen seen vs = Some (typed, tlen, vs)"
| "new_pattern_loop pl [c] typed stack tlen seen vs = None"
| "new_pattern_loop pl (c # operand # rest) typed stack tlen seen vs =
     (case op_code c of
        None \<Rightarrow> None
      | Some OpNop \<Rightarrow> new_pattern_loop pl rest typed stack tlen seen vs
      | Some OpPush \<Rightarrow>
          new_pattern_loop pl rest (typed @ [(OpPush, nat operand)]) (stack + 1)
            (if seen then tlen + 1 else tlen) seen vs
      | Some OpPushM \<Rightarrow>
          if seen then None
          else new_pattern_loop pl rest (typed @ [(OpPushM, nat operand)]) (stack + 1) tlen True vs
      | Some OpLitPush \<Rightarrow>
          if operand < 0 \<or> int (length pl) \<le> operand then None
          else new_pattern_loop pl rest (typed @ [(OpLitPush, nat operand)]) (stack + 1)
                 (if seen then tlen + 1 else tlen) seen vs
      | Some OpConcatN \<Rightarrow>
          if operand \<le> 0 then None
          else if stack - operand < 0 then None
          else new_pattern_loop pl rest (typed @ [(OpConcatN, nat operand)])
                 (stack - operand + 1) tlen seen vs
      | Some OpCapture \<Rightarrow>
          if operand < 0 \<or> int (length pl) \<le> operand then None
          else if stack - 1 < 0 then None
          else new_pattern_loop pl rest (typed @ [(OpCapture, length vs)]) (stack - 1) tlen seen
                 (vs @ [pl ! nat operand]))"

definition NewPattern :: "int \<Rightarrow> int list \<Rightarrow> string list \<Rightarrow> string \<Rightarrow> Pattern option" where
  "NewPattern version os pl vb =
     (if version \<noteq> 1 then None
      else case new_pattern_loop pl os [] 0 0 False [] of
             None \<Rightarrow> None
           | Some (typed, tlen, vs) \<Rightarrow>
               Some \<lparr>ops = typed, pool = pl, vars = vs, tailLen = tlen, verb = vb\<rparr>)"

text \<open>\<open>MustPattern\<close> panics on an invalid pattern: the model has no value there.\<close>

fun MustPattern :: "Pattern option \<Rightarrow> Pattern" where
  "MustPattern (Some p) = p"

fun join_slash :: "string list \<Rightarrow> string" where
  "join_slash [] = []"
| "join_slash [s] = s"
| "join_slash (s # t # ss) = s @ ''/'' @ join_slash (t # ss)"

text \<open>
  The matching loop: \<open>cs\<close> are the path components not yet consumed, \<open>stack\<close> grows at
  its end, \<open>captured\<close> has one slot per variable. \<open>None\<close> is \<open>ErrNotMatch\<close>.
\<close>

fun match_loop ::
  "Pattern \<Rightarrow> (OpCode \<times> nat) list \<Rightarrow> string list \<Rightarrow> string list \<Rightarrow> string list
     \<Rightarrow> string list option" where
  "match_loop p [] cs stack captured = (if cs \<noteq> [] then None else Some captured)"
| "match_loop p ((OpNop, n) # rest) cs stack captured = match_loop p rest cs stack captured"
| "match_loop p ((OpPush, n) # rest) cs stack captured =
     (case cs of [] \<Rightarrow> None
      | c # cs' \<Rightarrow> match_loop p rest cs' (stack @ [c]) captured)"
| "match_loop p ((OpLitPush, n) # rest) cs stack captured =
     (case cs of [] \<Rightarrow> None
      | c # cs' \<Rightarrow>
          if c \<noteq> pool p ! n then None else match_loop p rest cs' (stack @ [c]) captured)"
| "match_loop p ((OpPushM, n) # rest) cs stack captured =
     (if length cs < tailLen p then None
      else match_loop p rest (drop (length cs - tailLen p) cs)
             (stack @ [join_slash (take (length cs - tailLen p) cs)]) captured)"
| "match_loop p ((OpConcatN, n) # rest) cs stack captured =
     match_loop p rest cs
       (take (length stack - n) stack @ [join_slash (drop (length stack - n) stack)]) captured"
| "match_loop p ((OpCapture, n) # rest) cs stack captured =
     match_loop p rest cs (butlast stack) (captured[n := last stack])"

definition Match :: "Pattern \<Rightarrow> string list \<Rightarrow> string \<Rightarrow> (string \<rightharpoonup> string) option" where
  "Match p components vb =
     (if verb p \<noteq> vb then None
      else case match_loop p (ops p) components [] (replicate (length (vars p)) []) of
             None \<Rightarrow> None
           | Some captured \<Rightarrow>
               Some (fold (\<lambda>(k, v) m. m(k \<mapsto> v)) (zip (vars p) captured) Map.empty))"

subsection \<open>The pattern tables of the generated gateway\<close>

definition pattern_KeyTransparency_GetDomain_0 :: Pattern where
  "pattern_KeyTransparency_GetDomain_0 =
     MustPattern (NewPattern 1 [2, 0, 2, 1, 1, 0, 4, 1, 5, 2]
       [''v1'', ''domains'', ''domain_id''] '''')"

definition pattern_KeyTransparency_GetEpoch_0 :: Pattern where
  "pattern_KeyTransparency_GetEpoch_0 =
     MustPattern (NewPattern 1 [2, 0, 2, 1, 1, 0, 4, 1, 5, 2, 2, 3, 1, 0, 4, 1, 5, 4]
       [''v1'', ''domains'', ''domain_id'', ''epochs'', ''epoch''] '''')"

definition pattern_KeyTransparency_GetLatestEpoch_0 :: Pattern where
  "pattern_KeyTransparency_GetLatestEpoch_0 =
     MustPattern (NewPattern 1 [2, 0, 2, 1, 1, 0, 4, 1, 5, 2, 2, 3]
       [''v1'', ''domains'', ''domain_id'', ''epochs''] ''latest'')"

definition pattern_KeyTransparency_GetEpochStream_0 :: Pattern where
  "pattern_KeyTransparency_GetEpochStream_0 =
     MustPattern (NewPattern 1 [2, 0, 2, 1, 1, 0, 4, 1, 5, 2, 2, 3]
       [''v1'', ''domains'', ''domain_id'', ''epochs''] ''stream'')"

definition pattern_KeyTransparency_ListMutations_0 :: Pattern where
  "pattern_KeyTransparency_ListMutations_0 =
     MustPattern (NewPattern 1
       [2, 0, 2, 1, 1, 0, 4, 1, 5, 2, 2, 3, 1, 0, 4, 1, 5, 4, 2, 5]
       [''v1'', ''domains'', ''domain_id'', ''epochs'', ''epoch'', ''mutations''] '''')"

definition pattern_KeyTransparency_ListMutationsStream_0 :: Pattern where
  "pattern_KeyTransparency_ListMutationsStream_0 =
     MustPattern (NewPattern 1
       [2, 0, 2, 1, 1, 0, 4, 1, 5, 2, 2, 3, 1, 0, 4, 1, 5, 4, 2, 5]
       [''v1'', ''domains'', ''domain_id'', ''epochs'', ''epoch'', ''mutations''] ''stream'')"

definition pattern_KeyTransparency_GetEntry_0 :: Pattern where
  "pattern_KeyTransparency_GetEntry_0 =
     MustPattern (NewPattern 1
       [2, 0, 2, 1, 1, 0, 4, 1, 5, 2, 2, 3, 1, 0, 4, 1, 5, 4, 2, 5, 1, 0, 4, 1, 5, 6]
       [''v1'', ''domains'', ''domain_id'', ''apps'', ''app_id'', ''users'', ''user_id''] '''')"

definition pattern_KeyTransparency_ListEntryHistory_0 :: Pattern where
  "pattern_KeyTransparency_ListEntryHistory_0 =
     MustPattern (NewPattern 1
       [2, 0, 2, 1, 1, 0, 4, 1, 5, 2, 2, 3, 1, 0, 4, 1, 5, 4, 2, 5, 1, 0, 4, 1, 5, 6, 2, 7]
       [''v1'', ''domains'', ''domain_id'', ''apps'', ''app_id'', ''users'', ''user_id'',
        ''history''] '''')"

definition pattern_KeyTransparency_UpdateEntry_0 :: Pattern where
  "pattern_KeyTransparency_UpdateEntry_0 =
     MustPattern (NewPattern 1
       [2, 0, 2, 1, 1, 0, 4, 1, 5, 2, 2, 3, 1, 0, 4, 1, 5, 4, 2, 5, 1, 0, 4, 1, 5, 6]
       [''v1'', ''domains'', ''domain_id'', ''apps'', ''app_id'', ''users'', ''user_id''] '''')"

subsection \<open>Requests, messages and the client\<close>

text \<open>
  Of an HTTP request the gateway reads the method, the path, the query and the body. The
  query is \<open>url.Values\<close>: keys with their lists of values.
\<close>

type_synonym url_values = "(string \<times> string list) list"

record http_request =
  Method :: string
  Path :: string
  Query :: url_values
  Body :: string

type_synonym MD = "(string \<times> string list) list"

record ServerMetadata =
  HeaderMD :: MD
  TrailerMD :: MD

definition no_metadata :: ServerMetadata where
  "no_metadata = \<lparr>HeaderMD = [], TrailerMD = []\<rparr>"

text \<open>
  The request messages are declared in the generated protobuf file, which is not among
  the sources; each record has the fields the gateway assigns. A field the gateway does not
  assign keeps its zero value (the empty string, 0, nil).
\<close>

record GetDomainRequest =
  DomainId :: string

record GetEpochRequest =
  DomainId :: string
  Epoch :: "64 word"

record GetLatestEpochRequest =
  DomainId :: string

record ListMutationsRequest =
  DomainId :: string
  Epoch :: "64 word"

record GetEntryRequest =
  DomainId :: string
  AppId :: string
  UserId :: string

record ListEntryHistoryRequest =
  DomainId :: string
  AppId :: string
  UserId :: string

record 'eu UpdateEntryRequest =
  DomainId :: string
  AppId :: string
  UserId :: string
  EntryUpdate :: "'eu option"

text \<open>
  \<open>KeyTransparencyClient\<close> is an interface with one method per endpoint. A call is the
  method together with the request message it is given; the client answers unary calls with
  a message or an error and the metadata it received, and streaming calls with a stream or
  an error. Each request function returns, next to its result, the list of calls it made, so
  that "nothing was forwarded" is the empty list.
\<close>

datatype 'eu call =
    GetDomain GetDomainRequest
  | GetEpoch GetEpochRequest
  | GetLatestEpoch GetLatestEpochRequest
  | GetEpochStream GetEpochRequest
  | ListMutations ListMutationsRequest
  | ListMutationsStream ListMutationsRequest
  | GetEntry GetEntryRequest
  | ListEntryHistory ListEntryHistoryRequest
  | UpdateEntry "'eu UpdateEntryRequest"

record ('eu, 'msg, 'stream) KeyTransparencyClient =
  unary :: "'eu call \<Rightarrow> (status + 'msg) \<times> ServerMetadata"
  streaming :: "'eu call \<Rightarrow> status + 'stream"
  Header :: "'stream \<Rightarrow> status + MD"

type_synonym ('eu, 'r) outcome = "((status + 'r) \<times> ServerMetadata) \<times> 'eu call list"

definition reject :: "status \<Rightarrow> ('eu, 'r) outcome" where
  "reject e = ((Inl e, no_metadata), [])"

definition invoke_unary ::
  "('eu, 'msg, 'stream) KeyTransparencyClient \<Rightarrow> 'eu call \<Rightarrow> ('eu, 'msg) outcome" where
  "invoke_unary client c = (unary client c, [c])"

definition invoke_stream ::
  "('eu, 'msg, 'stream) KeyTransparencyClient \<Rightarrow> 'eu call \<Rightarrow> ('eu, 'stream) outcome" where
  "invoke_stream client c =
     (case streaming client c of
        Inl err \<Rightarrow> ((Inl err, no_metadata), [c])
      | Inr stream \<Rightarrow>
          (case Header client stream of
             Inl err \<Rightarrow> ((Inl err, no_metadata), [c])
           | Inr header \<Rightarrow> ((Inr stream, no_metadata\<lparr>HeaderMD := header\<rparr>), [c])))"

subsection \<open>Library functions the request functions call\<close>

text \<open>
  \<open>runtime.String\<close>, \<open>runtime.Int64\<close>, \<open>runtime.PopulateQueryParameters\<close> and the
  body decoder of the marshaler are functions of the grpc-gateway library. The request
  functions take them as parameters: a conversion returns the value or the text of its
  error. The filters handed to \<open>PopulateQueryParameters\<close> are tables of the generated file.
\<close>

record runtime =
  String :: "string \<Rightarrow> string + string"
  Int64 :: "string \<Rightarrow> string + 64 word"

record DoubleArray =
  Encoding :: "(string \<times> int) list"
  Base :: "int list"
  Check :: "int list"

type_synonym 'req populate = "'req \<Rightarrow> url_values \<Rightarrow> DoubleArray \<Rightarrow> string + 'req"

definition filter_KeyTransparency_GetDomain_0 :: DoubleArray where
  "filter_KeyTransparency_GetDomain_0 =
     \<lparr>Encoding = [(''domain_id'', 0)], Base = [1, 1, 0], Check = [0, 1, 2]\<rparr>"

definition filter_KeyTransparency_GetEpoch_0 :: DoubleArray where
  "filter_KeyTransparency_GetEpoch_0 =
     \<lparr>Encoding = [(''domain_id'', 0), (''epoch'', 1)],
      Base = [1, 1, 2, 0, 0], Check = [0, 1, 1, 2, 3]\<rparr>"

definition filter_KeyTransparency_GetLatestEpoch_0 :: DoubleArray where
  "filter_KeyTransparency_GetLatestEpoch_0 =
     \<lparr>Encoding = [(''domain_id'', 0)], Base = [1, 1, 0], Check = [0, 1, 2]\<rparr>"

definition filter_KeyTransparency_GetEpochStream_0 :: DoubleArray where
  "filter_KeyTransparency_GetEpochStream_0 =
     \<lparr>Encoding = [(''domain_id'', 0)], Base = [1, 1, 0], Check = [0, 1, 2]\<rparr>"

definition filter_KeyTransparency_ListMutations_0 :: DoubleArray where
  "filter_KeyTransparency_ListMutations_0 =
     \<lparr>Encoding = [(''domain_id'', 0), (''epoch'', 1)],
      Base = [1, 1, 2, 0, 0], Check = [0, 1, 1, 2, 3]\<rparr>"

definition filter_KeyTransparency_ListMutationsStream_0 :: DoubleArray where
  "filter_KeyTransparency_ListMutationsStream_0 =
     \<lparr>Encoding = [(''domain_id'', 0), (''epoch'', 1)],
      Base = [1, 1, 2, 0, 0], Check = [0, 1, 1, 2, 3]\<rparr>"

definition filter_KeyTransparency_GetEntry_0 :: DoubleArray where
  "filter_KeyTransparency_GetEntry_0 =
     \<lparr>Encoding = [(''domain_id'', 0), (''app_id'', 1), (''user_id'', 2)],
      Base = [1, 1, 2, 3, 0, 0, 0], Check = [0, 1, 1, 1, 2, 3, 4]\<rparr>"

definition filter_KeyTransparency_ListEntryHistory_0 :: DoubleArray where
  "filter_KeyTransparency_ListEntryHistory_0 =
     \<lparr>Encoding = [(''domain_id'', 0), (''app_id'', 1), (''user_id'', 2)],
      Base = [1, 1, 2, 3, 0, 0, 0], Check = [0, 1, 1, 1, 2, 3, 4]\<rparr>"

definition filter_KeyTransparency_UpdateEntry_0 :: DoubleArray where
  "filter_KeyTransparency_UpdateEntry_0 =
     \<lparr>Encoding = [(''entry_update'', 0), (''domain_id'', 1), (''app_id'', 2), (''user_id'', 3)],
      Base = [1, 1, 2, 3, 4, 0, 0, 0, 0], Check = [0, 1, 1, 1, 1, 2, 3, 4, 5]\<rparr>"

subsection \<open>The request functions\<close>

text \<open>
  Every path parameter is read by the same four statements: look the name up in
  \<open>pathParams\<close>, fail with "missing parameter" when it is absent, convert the value, fail
  with "type mismatch" when the conversion fails.
\<close>

definition missing_parameter :: "string \<Rightarrow> status" where
  "missing_parameter name = Errorf InvalidArgument (''missing parameter '' @ name)"

definition type_mismatch :: "string \<Rightarrow> string \<Rightarrow> status" where
  "type_mismatch name err =
     Errorf InvalidArgument (''type mismatch, parameter: '' @ name @ '', error: '' @ err)"

definition path_param ::
  "(string \<Rightarrow> string + 'a) \<Rightarrow> (string \<rightharpoonup> string) \<Rightarrow> string \<Rightarrow> status + 'a" where
  "path_param conv pathParams name =
     (case pathParams name of
        None \<Rightarrow> Inl (missing_parameter name)
      | Some val \<Rightarrow>
          (case conv val of
             Inl err \<Rightarrow> Inl (type_mismatch name err)
           | Inr v \<Rightarrow> Inr v))"

definition request_KeyTransparency_GetDomain_0 ::
  "runtime \<Rightarrow> GetDomainRequest populate \<Rightarrow> ('eu, 'msg, 'stream) KeyTransparencyClient
     \<Rightarrow> http_request \<Rightarrow> (string \<rightharpoonup> string) \<Rightarrow> ('eu, 'msg) outcome" where
  "request_KeyTransparency_GetDomain_0 rt populate client req pathParams =
     (case path_param (String rt) pathParams ''domain_id'' of
        Inl e \<Rightarrow> reject e
      | Inr d \<Rightarrow>
     (case populate \<lparr>GetDomainRequest.DomainId = d\<rparr> (Query req)
             filter_KeyTransparency_GetDomain_0 of
        Inl err \<Rightarrow> reject (Errorf InvalidArgument err)
      | Inr protoReq \<Rightarrow> invoke_unary client (GetDomain protoReq)))"

definition request_KeyTransparency_GetEpoch_0 ::
  "runtime \<Rightarrow> GetEpochRequest populate \<Rightarrow> ('eu, 'msg, 'stream) KeyTransparencyClient
     \<Rightarrow> http_request \<Rightarrow> (string \<rightharpoonup> string) \<Rightarrow> ('eu, 'msg) outcome" where
  "request_KeyTransparency_GetEpoch_0 rt populate client req pathParams =
     (case path_param (String rt) pathParams ''domain_id'' of
        Inl e \<Rightarrow> reject e
      | Inr d \<Rightarrow>
     (case path_param (Int64 rt) pathParams ''epoch'' of
        Inl e \<Rightarrow> reject e
      | Inr ep \<Rightarrow>
     (case populate \<lparr>GetEpochRequest.DomainId = d, Epoch = ep\<rparr> (Query req)
             filter_KeyTransparency_GetEpoch_0 of
        Inl err \<Rightarrow> reject (Errorf InvalidArgument err)
      | Inr protoReq \<Rightarrow> invoke_unary client (GetEpoch protoReq))))"

definition request_KeyTransparency_GetLatestEpoch_0 ::
  "runtime \<Rightarrow> GetLatestEpochRequest populate \<Rightarrow> ('eu, 'msg, 'stream) KeyTransparencyClient
     \<Rightarrow> http_request \<Rightarrow> (string \<rightharpoonup> string) \<Rightarrow> ('eu, 'msg) outcome" where
  "request_KeyTransparency_GetLatestEpoch_0 rt populate client req pathParams =
     (case path_param (String rt) pathParams ''domain_id'' of
        Inl e \<Rightarrow> reject e
      | Inr d \<Rightarrow>
     (case populate \<lparr>GetLatestEpochRequest.DomainId = d\<rparr> (Query req)
             filter_KeyTransparency_GetLatestEpoch_0 of
        Inl err \<Rightarrow> reject (Errorf InvalidArgument err)
      | Inr protoReq \<Rightarrow> invoke_unary client (GetLatestEpoch protoReq)))"

definition request_KeyTransparency_GetEpochStream_0 ::
  "runtime \<Rightarrow> GetEpochRequest populate \<Rightarrow> ('eu, 'msg, 'stream) KeyTransparencyClient
     \<Rightarrow> http_request \<Rightarrow> (string \<rightharpoonup> string) \<Rightarrow> ('eu, 'stream) outcome" where
  "request_KeyTransparency_GetEpochStream_0 rt populate client req pathParams =
     (case path_param (String rt) pathParams ''domain_id'' of
        Inl e \<Rightarrow> reject e
      | Inr d \<Rightarrow>
     (case populate \<lparr>GetEpochRequest.DomainId = d, Epoch = 0\<rparr> (Query req)
             filter_KeyTransparency_GetEpochStream_0 of
        Inl err \<Rightarrow> reject (Errorf InvalidArgument err)
      | Inr protoReq \<Rightarrow> invoke_stream client (GetEpochStream protoReq)))"

definition request_KeyTransparency_ListMutations_0 ::
  "runtime \<Rightarrow> ListMutationsRequest populate \<Rightarrow> ('eu, 'msg, 'stream) KeyTransparencyClient
     \<Rightarrow> http_request \<Rightarrow> (string \<rightharpoonup> string) \<Rightarrow> ('eu, 'msg) outcome" where
  "request_KeyTransparency_ListMutations_0 rt populate client req pathParams =
     (case path_param (String rt) pathParams ''domain_id'' of
        Inl e \<Rightarrow> reject e
      | Inr d \<Rightarrow>
     (case path_param (Int64 rt) pathParams ''epoch'' of
        Inl e \<Rightarrow> reject e
      | Inr ep \<Rightarrow>
     (case populate \<lparr>ListMutationsRequest.DomainId = d, Epoch = ep\<rparr> (Query req)
             filter_KeyTransparency_ListMutations_0 of
        Inl err \<Rightarrow> reject (Errorf InvalidArgument err)
      | Inr protoReq \<Rightarrow> invoke_unary client (ListMutations protoReq))))"

definition request_KeyTransparency_ListMutationsStream_0 ::
  "runtime \<Rightarrow> ListMutationsRequest populate \<Rightarrow> ('eu, 'msg, 'stream) KeyTransparencyClient
     \<Rightarrow> http_request \<Rightarrow> (string \<rightharpoonup> string) \<Rightarrow> ('eu, 'stream) outcome" where
  "request_KeyTransparency_ListMutationsStream_0 rt populate client req pathParams =
     (case path_param (String rt) pathParams ''domain_id'' of
        Inl e \<Rightarrow> reject e
      | Inr d \<Rightarrow>
     (case path_param (Int64 rt) pathParams ''epoch'' of
        Inl e \<Rightarrow> reject e
      | Inr ep \<Rightarrow>
     (case populate \<lparr>ListMutationsRequest.DomainId = d, Epoch = ep\<rparr> (Query req)
             filter_KeyTransparency_ListMutationsStream_0 of
        Inl err \<Rightarrow> reject (Errorf InvalidArgument err)
      | Inr protoReq \<Rightarrow> invoke_stream client (ListMutationsStream protoReq))))"

definition request_KeyTransparency_GetEntry_0 ::
  "runtime \<Rightarrow> GetEntryRequest populate \<Rightarrow> ('eu, 'msg, 'stream) KeyTransparencyClient
     \<Rightarrow> http_request \<Rightarrow> (string \<rightharpoonup> string) \<Rightarrow> ('eu, 'msg) outcome" where
  "request_KeyTransparency_GetEntry_0 rt populate client req pathParams =
     (case path_param (String rt) pathParams ''domain_id'' of
        Inl e \<Rightarrow> reject e
      | Inr d \<Rightarrow>
     (case path_param (String rt) pathParams ''app_id'' of
        Inl e \<Rightarrow> reject e
      | Inr a \<Rightarrow>
     (case path_param (String rt) pathParams ''user_id'' of
        Inl e \<Rightarrow> reject e
      | Inr u \<Rightarrow>
     (case populate \<lparr>GetEntryRequest.DomainId = d, AppId = a, UserId = u\<rparr> (Query req)
             filter_KeyTransparency_GetEntry_0 of
        Inl err \<Rightarrow> reject (Errorf InvalidArgument err)
      | Inr protoReq \<Rightarrow> invoke_unary client (GetEntry protoReq)))))"

definition request_KeyTransparency_ListEntryHistory_0 ::
  "runtime \<Rightarrow> ListEntryHistoryRequest populate \<Rightarrow> ('eu, 'msg, 'stream) KeyTransparencyClient
     \<Rightarrow> http_request \<Rightarrow> (string \<rightharpoonup> string) \<Rightarrow> ('eu, 'msg) outcome" where
  "request_KeyTransparency_ListEntryHistory_0 rt populate client req pathParams =
     (case path_param (String rt) pathParams ''domain_id'' of
        Inl e \<Rightarrow> reject e
      | Inr d \<Rightarrow>
     (case path_param (String rt) pathParams ''app_id'' of
        Inl e \<Rightarrow> reject e
      | Inr a \<Rightarrow>
     (case path_param (String rt) pathParams ''user_id'' of
        Inl e \<Rightarrow> reject e
      | Inr u \<Rightarrow>
     (case populate \<lparr>ListEntryHistoryRequest.DomainId = d, AppId = a, UserId = u\<rparr> (Query req)
             filter_KeyTransparency_ListEntryHistory_0 of
        Inl err \<Rightarrow> reject (Errorf InvalidArgument err)
      | Inr protoReq \<Rightarrow> invoke_unary client (ListEntryHistory protoReq)))))"

text \<open>
  \<open>UpdateEntry\<close> first decodes the body into the \<open>EntryUpdate\<close> field; \<open>decode\<close> is the
  decoder of the inbound marshaler.
\<close>

definition request_KeyTransparency_UpdateEntry_0 ::
  "runtime \<Rightarrow> (string \<Rightarrow> string + 'eu option) \<Rightarrow> 'eu UpdateEntryRequest populate
     \<Rightarrow> ('eu, 'msg, 'stream) KeyTransparencyClient
     \<Rightarrow> http_request \<Rightarrow> (string \<rightharpoonup> string) \<Rightarrow> ('eu, 'msg) outcome" where
  "request_KeyTransparency_UpdateEntry_0 rt decode populate client req pathParams =
     (case decode (Body req) of
        Inl err \<Rightarrow> reject (Errorf InvalidArgument err)
      | Inr eu \<Rightarrow>
     (case path_param (String rt) pathParams ''domain_id'' of
        Inl e \<Rightarrow> reject e
      | Inr d \<Rightarrow>
     (case path_param (String rt) pathParams ''app_id'' of
        Inl e \<Rightarrow> reject e
      | Inr a \<Rightarrow>
     (case path_param (String rt) pathParams ''user_id'' of
        Inl e \<Rightarrow> reject e
      | Inr u \<Rightarrow>
     (case populate \<lparr>UpdateEntryRequest.DomainId = d, AppId = a, UserId = u, EntryUpdate = eu\<rparr>
             (Query req) filter_KeyTransparency_UpdateEntry_0 of
        Inl err \<Rightarrow> reject (Errorf InvalidArgument err)
      | Inr protoReq \<Rightarrow> invoke_unary client (UpdateEntry protoReq))))))"

subsection \<open>The multiplexer and the registration of the handlers\<close>

text \<open>
  What a handler does with the HTTP response: it writes an error with \<open>runtime.HTTPError\<close>
  or forwards the reply with \<open>runtime.ForwardResponseMessage\<close> or
  \<open>runtime.ForwardResponseStream\<close>.
\<close>

datatype ('msg, 'stream) written =
    HTTPError status
  | ForwardResponseMessage ServerMetadata 'msg
  | ForwardResponseStream ServerMetadata 'stream

type_synonym ('eu, 'msg, 'stream) handler_func =
  "http_request \<Rightarrow> (string \<rightharpoonup> string) \<Rightarrow> ('msg, 'stream) written \<times> 'eu call list"

record ('eu, 'msg, 'stream) handler =
  meth :: string
  pat :: Pattern
  h :: "('eu, 'msg, 'stream) handler_func"

type_synonym ('eu, 'msg, 'stream) ServeMux = "('eu, 'msg, 'stream) handler list"

definition Handle ::
  "string \<Rightarrow> Pattern \<Rightarrow> ('eu, 'msg, 'stream) handler_func \<Rightarrow> ('eu, 'msg, 'stream) ServeMux
     \<Rightarrow> ('eu, 'msg, 'stream) ServeMux" where
  "Handle m p f mux = mux @ [\<lparr>meth = m, pat = p, h = f\<rparr>]"

text \<open>
  The library functions a handler needs, beyond the client: the conversions, the
  annotation of the context (which may fail), the body decoder and the population of each
  message from the query.
\<close>

record 'eu gateway_lib =
  conv :: runtime
  AnnotateContext :: "http_request \<Rightarrow> status option"
  Decode :: "string \<Rightarrow> string + 'eu option"
  populate_GetDomain :: "GetDomainRequest populate"
  populate_GetEpoch :: "GetEpochRequest populate"
  populate_GetLatestEpoch :: "GetLatestEpochRequest populate"
  populate_ListMutations :: "ListMutationsRequest populate"
  populate_GetEntry :: "GetEntryRequest populate"
  populate_ListEntryHistory :: "ListEntryHistoryRequest populate"
  populate_UpdateEntry :: "'eu UpdateEntryRequest populate"

text \<open>
  The body of each closure handed to \<open>mux.Handle\<close>: annotate the context, run the
  request function, write the error or forward the reply. The goroutine that cancels the
  context when the peer closes the connection is left out.
\<close>

definition handle_unary ::
  "'eu gateway_lib \<Rightarrow> (http_request \<Rightarrow> (string \<rightharpoonup> string) \<Rightarrow> ('eu, 'msg) outcome)
     \<Rightarrow> ('eu, 'msg, 'stream) handler_func" where
  "handle_unary lib request req pathParams =
     (case AnnotateContext lib req of
        Some err \<Rightarrow> (HTTPError err, [])
      | None \<Rightarrow>
          (case request req pathParams of
             ((Inl err, md), calls) \<Rightarrow> (HTTPError err, calls)
           | ((Inr resp, md), calls) \<Rightarrow> (ForwardResponseMessage md resp, calls)))"

definition handle_stream ::
  "'eu gateway_lib \<Rightarrow> (http_request \<Rightarrow> (string \<rightharpoonup> string) \<Rightarrow> ('eu, 'stream) outcome)
     \<Rightarrow> ('eu, 'msg, 'stream) handler_func" where
  "handle_stream lib request req pathParams =
     (case AnnotateContext lib req of
        Some err \<Rightarrow> (HTTPError err, [])
      | None \<Rightarrow>
          (case request req pathParams of
             ((Inl err, md), calls) \<Rightarrow> (HTTPError err, calls)
           | ((Inr resp, md), calls) \<Rightarrow> (ForwardResponseStream md resp, calls)))"

definition RegisterKeyTransparencyHandlerClient ::
  "'eu gateway_lib \<Rightarrow> ('eu, 'msg, 'stream) ServeMux \<Rightarrow> ('eu, 'msg, 'stream) KeyTransparencyClient
     \<Rightarrow> ('eu, 'msg, 'stream) ServeMux \<times> status option" where
  "RegisterKeyTransparencyHandlerClient lib mux client =
     (let
        mux = Handle ''GET'' pattern_KeyTransparency_GetDomain_0
          (handle_unary lib
            (request_KeyTransparency_GetDomain_0 (conv lib) (populate_GetDomain lib) client)) mux;
        mux = Handle ''GET'' pattern_KeyTransparency_GetEpoch_0
          (handle_unary lib
            (request_KeyTransparency_GetEpoch_0 (conv lib) (populate_GetEpoch lib) client)) mux;
        mux = Handle ''GET'' pattern_KeyTransparency_GetLatestEpoch_0
          (handle_unary lib
            (request_KeyTransparency_GetLatestEpoch_0 (conv lib) (populate_GetLatestEpoch lib)
              client)) mux;
        mux = Handle ''GET'' pattern_KeyTransparency_GetEpochStream_0
          (handle_stream lib
            (request_KeyTransparency_GetEpochStream_0 (conv lib) (populate_GetEpoch lib) client))
          mux;
        mux = Handle ''GET'' pattern_KeyTransparency_ListMutations_0
          (handle_unary lib
            (request_KeyTransparency_ListMutations_0 (conv lib) (populate_ListMutations lib)
              client)) mux;
        mux = Handle ''GET'' pattern_KeyTransparency_ListMutationsStream_0
          (handle_stream lib
            (request_KeyTransparency_ListMutationsStream_0 (conv lib) (populate_ListMutations lib)
              client)) mux;
        mux = Handle ''GET'' pattern_KeyTransparency_GetEntry_0
          (handle_unary lib
            (request_KeyTransparency_GetEntry_0 (conv lib) (populate_GetEntry lib) client)) mux;
        mux = Handle ''GET'' pattern_KeyTransparency_ListEntryHistory_0
          (handle_unary lib
            (request_KeyTransparency_ListEntryHistory_0 (conv lib) (populate_ListEntryHistory lib)
              client)) mux;
        mux = Handle ''PUT'' pattern_KeyTransparency_UpdateEntry_0
          (handle_unary lib
            (request_KeyTransparency_UpdateEntry_0 (conv lib) (Decode lib)
              (populate_UpdateEntry lib) client)) mux
      in (mux, None))"

text \<open>
  \<open>ServeMux.ServeHTTP\<close> of the library: the path is cut into components at the slashes,
  a verb is cut off the last component at its last colon, and the first handler registered
  for the method whose pattern matches is run. \<open>None\<close>: no handler ran, and the
  multiplexer answered by itself (400, 404 or 405).
\<close>

fun split_on :: "char \<Rightarrow> string \<Rightarrow> string list" where
  "split_on sep [] = [[]]"
| "split_on sep (c # cs) =
     (if c = sep then [] # split_on sep cs
      else (case split_on sep cs of [] \<Rightarrow> [[c]] | w # ws \<Rightarrow> (c # w) # ws))"

fun LastIndex :: "string \<Rightarrow> char \<Rightarrow> nat option" where
  "LastIndex [] c = None"
| "LastIndex (x # xs) c =
     (case LastIndex xs c of
        Some i \<Rightarrow> Some (Suc i)
      | None \<Rightarrow> if x = c then Some 0 else None)"

fun first_match ::
  "('eu, 'msg, 'stream) ServeMux \<Rightarrow> string \<Rightarrow> string list \<Rightarrow> string
     \<Rightarrow> (('eu, 'msg, 'stream) handler \<times> (string \<rightharpoonup> string)) option" where
  "first_match [] m components vb = None"
| "first_match (hdl # rest) m components vb =
     (if meth hdl \<noteq> m then first_match rest m components vb
      else (case Match (pat hdl) components vb of
              None \<Rightarrow> first_match rest m components vb
            | Some pathParams \<Rightarrow> Some (hdl, pathParams)))"

definition ServeHTTP ::
  "('eu, 'msg, 'stream) ServeMux \<Rightarrow> http_request
     \<Rightarrow> (('msg, 'stream) written \<times> 'eu call list) option" where
  "ServeHTTP mux req =
     (case Path req of
        [] \<Rightarrow> None
      | c # rest \<Rightarrow>
          if c \<noteq> CHR ''/'' then None
          else
            (let components = split_on (CHR ''/'') rest;
                 lst = last components
             in (case LastIndex lst (CHR '':'') of
                   Some 0 \<Rightarrow> None
                 | Some (Suc i) \<Rightarrow>
                     (case first_match mux (Method req)
                             (butlast components @ [take (Suc i) lst]) (drop (Suc (Suc i)) lst) of
                        None \<Rightarrow> None
                      | Some (hdl, pathParams) \<Rightarrow> Some (h hdl req pathParams))
                 | None \<Rightarrow>
                     (case first_match mux (Method req) components [] of
                        None \<Rightarrow> None
                      | Some (hdl, pathParams) \<Rightarrow> Some (h hdl req pathParams)))))"

text \<open>The name of the client method behind each call, as the generated file writes it.\<close>

fun method_name :: "'eu call \<Rightarrow> string" where
  "method_name (GetDomain r) = ''GetDomain''"
| "method_name (GetEpoch r) = ''GetEpoch''"
| "method_name (GetLatestEpoch r) = ''GetLatestEpoch''"
| "method_name (GetEpochStream r) = ''GetEpochStream''"
| "method_name (ListMutations r) = ''ListMutations''"
| "method_name (ListMutationsStream r) = ''ListMutationsStream''"
| "method_name (GetEntry r) = ''GetEntry''"
| "method_name (ListEntryHistory r) = ''ListEntryHistory''"
| "method_name (UpdateEntry r) = ''UpdateEntry''"

subsection \<open>Registration from an endpoint\<close>

text \<open>
  The connections of the process: those that are open, those that a goroutine will close
  once the context is done, and the lines printed by \<open>grpclog.Printf\<close>.
\<close>

record 'c conns =
  open_conns :: "'c list"
  close_when_done :: "'c list"
  printed :: "string list"

text \<open>
  \<open>conn.Close()\<close>: the connection is no longer open; \<open>cerr\<close> is the error that
  \<open>Close\<close> reports, which the caller prints.
\<close>

definition close_conn :: "string \<Rightarrow> 'c \<Rightarrow> string option \<Rightarrow> 'c conns \<Rightarrow> 'c conns" where
  "close_conn endpoint conn cerr w =
     (let w = w\<lparr>open_conns := removeAll conn (open_conns w)\<rparr>
      in (case cerr of
            None \<Rightarrow> w
          | Some msg \<Rightarrow>
              w\<lparr>printed := printed w @ [''Failed to close conn to '' @ endpoint @ '': '' @ msg]\<rparr>))"

text \<open>
  The body of \<open>RegisterKeyTransparencyHandlerFromEndpoint\<close> with the registration it
  ends in as the parameter \<open>register\<close>: dial, return the error of a failed dial, else
  register, and in the deferred function close the connection if the returned error is
  not nil, or leave the closing to the goroutine that waits for the context.
\<close>

definition dial_and_register ::
  "(string \<Rightarrow> status + 'c) \<Rightarrow> ('c \<Rightarrow> string option) \<Rightarrow> ('mux \<Rightarrow> 'c \<Rightarrow> 'mux \<times> status option)
     \<Rightarrow> 'mux \<Rightarrow> string \<Rightarrow> 'c conns \<Rightarrow> ('mux \<times> status option) \<times> 'c conns" where
  "dial_and_register Dial close_error register mux endpoint w =
     (case Dial endpoint of
        Inl err \<Rightarrow> ((mux, Some err), w)
      | Inr conn \<Rightarrow>
          (let w = w\<lparr>open_conns := conn # open_conns w\<rparr>;
               (mux, err) = register mux conn
           in (case err of
                 Some e \<Rightarrow> ((mux, Some e), close_conn endpoint conn (close_error conn) w)
               | None \<Rightarrow> ((mux, None), w\<lparr>close_when_done := conn # close_when_done w\<rparr>))))"

definition RegisterKeyTransparencyHandler ::
  "'eu gateway_lib \<Rightarrow> ('c \<Rightarrow> ('eu, 'msg, 'stream) KeyTransparencyClient)
     \<Rightarrow> ('eu, 'msg, 'stream) ServeMux \<Rightarrow> 'c \<Rightarrow> ('eu, 'msg, 'stream) ServeMux \<times> status option" where
  "RegisterKeyTransparencyHandler lib NewKeyTransparencyClient mux conn =
     RegisterKeyTransparencyHandlerClient lib mux (NewKeyTransparencyClient conn)"

definition RegisterKeyTransparencyHandlerFromEndpoint ::
  "'eu gateway_lib \<Rightarrow> ('c \<Rightarrow> ('eu, 'msg, 'stream) KeyTransparencyClient)
     \<Rightarrow> (string \<Rightarrow> status + 'c) \<Rightarrow> ('c \<Rightarrow> string option)
     \<Rightarrow> ('eu, 'msg, 'stream) ServeMux \<Rightarrow> string \<Rightarrow> 'c conns
     \<Rightarrow> (('eu, 'msg, 'stream) ServeMux \<times> status option) \<times> 'c conns" where
  "RegisterKeyTransparencyHandlerFromEndpoint lib NewKeyTransparencyClient Dial close_error =
     dial_and_register Dial close_error (RegisterKeyTransparencyHandler lib NewKeyTransparencyClient)"

section \<open>The monitor binary\<close>

subsection \<open>Transport credentials\<close>

text \<open>
  \<open>net.SplitHostPort\<close> of the Go standard library, statement by statement. The error
  is an \<open>AddrError\<close>: the reason and the address.
\<close>

record AddrError =
  Err :: string
  Addr :: string

fun IndexByte :: "string \<Rightarrow> char \<Rightarrow> nat option" where
  "IndexByte [] c = None"
| "IndexByte (x # xs) c =
     (if x = c then Some 0 else map_option Suc (IndexByte xs c))"

definition SplitHostPort :: "string \<Rightarrow> AddrError + (string \<times> string)" where
  "SplitHostPort hostport =
     (let addrErr = (\<lambda>why. Inl \<lparr>Err = why, Addr = hostport\<rparr>);
          missingPort = ''missing port in address'';
          tooManyColons = ''too many colons in address''
      in
      (case LastIndex hostport (CHR '':'') of
         None \<Rightarrow> addrErr missingPort
       | Some i \<Rightarrow>
           (let bracketed =
              (if hostport ! 0 = CHR ''[''
               then
                 (case IndexByte hostport (CHR '']'') of
                    None \<Rightarrow> Inl ''missing ']' in address''
                  | Some end \<Rightarrow>
                      if end + 1 = length hostport then Inl missingPort
                      else if end + 1 = i then Inr (take (end - 1) (drop 1 hostport), 1, end + 1)
                      else if hostport ! (end + 1) = CHR '':'' then Inl tooManyColons
                      else Inl missingPort)
               else
                 (if IndexByte (take i hostport) (CHR '':'') \<noteq> None then Inl tooManyColons
                  else Inr (take i hostport, 0, 0)))
            in
            (case bracketed of
               Inl why \<Rightarrow> addrErr why
             | Inr (host, j, k) \<Rightarrow>
                 if IndexByte (drop j hostport) (CHR ''['') \<noteq> None
                 then addrErr ''unexpected '[' in address''
                 else if IndexByte (drop k hostport) (CHR '']'') \<noteq> None
                 then addrErr ''unexpected ']' in address''
                 else Inr (host, drop (i + 1) hostport)))))"

text \<open>
  Of a \<open>tls.Config\<close> the monitor sets whether the certificate check is skipped;
  \<open>credentials.NewClientTLSFromCert\<close> of the gRPC library sets the server name to
  verify (and the certificate pool, which the monitor passes as nil: the system's roots).
\<close>

record tls_Config =
  InsecureSkipVerify :: bool
  ServerName :: string

datatype TransportCredentials = NewTLS tls_Config

definition NewClientTLSFromCert :: "string \<Rightarrow> TransportCredentials" where
  "NewClientTLSFromCert serverNameOverride =
     NewTLS \<lparr>InsecureSkipVerify = False, ServerName = serverNameOverride\<rparr>"

definition transportCreds :: "string \<Rightarrow> bool \<Rightarrow> AddrError + TransportCredentials" where
  "transportCreds ktURL insecure =
     (case SplitHostPort ktURL of
        Inl err \<Rightarrow> Inl err
      | Inr (host, port) \<Rightarrow>
          if insecure then Inr (NewTLS \<lparr>InsecureSkipVerify = True, ServerName = []\<rparr>)
          else Inr (NewClientTLSFromCert host))"

subsection \<open>The retry of the first call\<close>

text \<open>A \<open>time.Duration\<close> is a number of nanoseconds.\<close>

definition Millisecond :: int where
  "Millisecond = 1000000"

definition Second :: int where
  "Second = 1000 * Millisecond"

definition Minute :: int where
  "Minute = 60 * Second"

text \<open>
  Modelled from the spec: package \<open>internal/backoff\<close> (the type \<open>Backoff\<close> with its
  method \<open>Retry\<close>) is not among the sources; only the call in \<open>main\<close> is. The spec says
  that transient errors "are retried with exponential backoff (base 1 ms, factor 1.5,
  cap 1 s) up to a per-operation deadline" and that the classes UNAVAILABLE, DEADLINE and
  CONFLICT are "retried with backoff; surfaced after deadline". The fields \<open>Min\<close>, \<open>Max\<close>
  and \<open>Factor\<close> are those of the literal in \<open>main\<close> (base, cap and factor); \<open>delta\<close> is
  the state of the backoff, the current pause less the base, zero in a fresh value.
\<close>

record Backoff =
  MinD :: int
  MaxD :: int
  Factor :: rat
  delta :: int

text \<open>
  Modelled from the spec: the pause to wait now, and the backoff advanced to the next
  pause, which is the current one times the factor, cut at the cap.
\<close>

definition Duration :: "Backoff \<Rightarrow> int \<times> Backoff" where
  "Duration b =
     (let pause = MinD b + delta b;
          nextPause = min (MaxD b) \<lfloor>of_int pause * Factor b\<rfloor>
      in (pause, b\<lparr>delta := nextPause - MinD b\<rparr>))"

text \<open>
  Modelled from the spec: the error classes that are retried. The spec's transient classes
  UNAVAILABLE, DEADLINE and CONFLICT are the status codes \<open>Unavailable\<close>,
  \<open>DeadlineExceeded\<close> and \<open>Aborted\<close>; the caller's codes (the last argument of
  \<open>Retry\<close>) are retried as well. No error (nil) has the code \<open>OK\<close> and is not retried.
\<close>

definition IsRetryable :: "status option \<Rightarrow> code list \<Rightarrow> bool" where
  "IsRetryable err retry =
     (case err of
        None \<Rightarrow> False
      | Some e \<Rightarrow>
          Code e \<noteq> OK \<and>
          (Code e = Unavailable \<or> Code e = DeadlineExceeded \<or> Code e = Aborted \<or>
           Code e \<in> set retry))"

text \<open>
  Modelled from the spec: the retry loop. \<open>f k\<close> is the error of the \<open>k\<close>-th call of the
  operation (\<open>None\<close>: success); time is a clock in nanoseconds that the pauses advance;
  \<open>deadline\<close> is when the context expires. The loop calls the operation, returns its
  result unless the error is retried, and otherwise waits for the pause; if the context
  expires first, the error is surfaced. The result is the error, the backoff, the clock and
  the number of calls made. The loop need not end (a backoff with pauses of zero never
  reaches the deadline), so not returning is the value \<open>None\<close>.
\<close>

partial_function (option) Retry ::
  "(nat \<Rightarrow> status option) \<Rightarrow> code list \<Rightarrow> int \<Rightarrow> Backoff \<Rightarrow> int \<Rightarrow> nat
     \<Rightarrow> (status option \<times> Backoff \<times> int \<times> nat) option" where
  "Retry f retry deadline b now k =
     (if \<not> IsRetryable (f k) retry then Some (f k, b, now, Suc k)
      else if deadline \<le> now + fst (Duration b)
      then Some (f k, snd (Duration b), deadline, Suc k)
      else Retry f retry deadline (snd (Duration b)) (now + fst (Duration b)) (Suc k))"

declare Retry.simps [code]

text \<open>
  From \<open>main\<close>: the backoff literal, the context with a timeout of one minute, and the
  call of \<open>Retry\<close> around \<open>GetDirectory\<close> with the code \<open>Unavailable\<close>. The clock
  starts at 0 when the context is made.
\<close>

definition main_backoff :: Backoff where
  "main_backoff = \<lparr>MinD = Millisecond, MaxD = Second, Factor = 15 / 10, delta = 0\<rparr>"

definition main_retry_GetDirectory ::
  "(nat \<Rightarrow> status option) \<Rightarrow> (status option \<times> Backoff \<times> int \<times> nat) option" where
  "main_retry_GetDirectory GetDirectory_err =
     Retry GetDirectory_err [Unavailable] (0 + Minute) main_backoff 0 0"

text \<open>The pause before the retry that follows the \<open>n\<close>-th failed call (counted from 0).\<close>

fun nth_backoff :: "Backoff \<Rightarrow> nat \<Rightarrow> Backoff" where
  "nth_backoff b 0 = b"
| "nth_backoff b (Suc n) = snd (Duration (nth_backoff b n))"

definition nth_pause :: "Backoff \<Rightarrow> nat \<Rightarrow> int" where
  "nth_pause b n = fst (Duration (nth_backoff b n))"

text \<open>
  The backoffs that the loop of \<open>main\<close> passes through: the parameters of the literal, and
  a current pause between the base and the cap.
\<close>

definition steady :: "Backoff \<Rightarrow> bool" where
  "steady b \<longleftrightarrow> MinD b = Millisecond \<and> MaxD b = Second \<and> Factor b = 3 / 2 \<and>
     0 \<le> delta b \<and> MinD b + delta b \<le> Second"

section \<open>Values for the examples\<close>

text \<open>
  Concrete library functions and a concrete client, used where a statement is checked on
  an example: the string conversion never fails, the integer conversion reads a decimal
  numeral with an optional sign into a signed 64-bit integer, the query adds nothing to a
  message, and every call of the client is answered with the code \<open>Unimplemented\<close>.
\<close>

fun digit_value :: "char \<Rightarrow> int option" where
  "digit_value c =
     (let n = (of_char c :: int)
      in if 48 \<le> n \<and> n \<le> 57 then Some (n - 48) else None)"

fun decimal_value :: "int \<Rightarrow> string \<Rightarrow> int option" where
  "decimal_value acc [] = Some acc"
| "decimal_value acc (c # cs) =
     (case digit_value c of
        None \<Rightarrow> None
      | Some dv \<Rightarrow> decimal_value (10 * acc + dv) cs)"

definition example_Int64 :: "string \<Rightarrow> string + 64 word" where
  "example_Int64 s =
     (let neg = (s \<noteq> [] \<and> s ! 0 = CHR ''-'');
          digits = (if s \<noteq> [] \<and> (s ! 0 = CHR ''-'' \<or> s ! 0 = CHR ''+'') then drop 1 s else s)
      in if digits = [] then Inl ''invalid syntax''
         else (case decimal_value 0 digits of
                 None \<Rightarrow> Inl ''invalid syntax''
               | Some n \<Rightarrow>
                   if neg then (if n > 2 ^ 63 then Inl ''value out of range''
                                else Inr (word_of_int (- n)))
                   else (if n \<ge> 2 ^ 63 then Inl ''value out of range''
                         else Inr (word_of_int n))))"

definition example_runtime :: runtime where
  "example_runtime = \<lparr>String = Inr, Int64 = example_Int64\<rparr>"

definition example_populate :: "'req populate" where
  "example_populate protoReq query flt = Inr protoReq"

definition example_client :: "(unit, unit, unit) KeyTransparencyClient" where
  "example_client =
     \<lparr>unary = (\<lambda>c. (Inl (Errorf Unimplemented (method_name c)), no_metadata)),
      streaming = (\<lambda>c. Inl (Errorf Unimplemented (method_name c))),
      Header = (\<lambda>s. Inr [])\<rparr>"

definition example_request :: http_request where
  "example_request = \<lparr>Method = ''GET'', Path = ''/'', Query = [], Body = []\<rparr>"

text \<open>The library of the examples: the body decoder fails on the empty body.\<close>

definition example_lib :: "unit gateway_lib" where
  "example_lib =
     \<lparr>conv = example_runtime, AnnotateContext = (\<lambda>req. None),
      Decode = (\<lambda>body. if body = [] then Inl ''EOF'' else Inr None),
      populate_GetDomain = example_populate, populate_GetEpoch = example_populate,
      populate_GetLatestEpoch = example_populate, populate_ListMutations = example_populate,
      populate_GetEntry = example_populate, populate_ListEntryHistory = example_populate,
      populate_UpdateEntry = example_populate\<rparr>"

text \<open>A keyserver that fails the first three calls with the given code.\<close>

definition example_attempts :: "code \<Rightarrow> nat \<Rightarrow> status option" where
  "example_attempts c k = (if k < 3 then Some (Errorf c ''keyserver is starting'') else None)"

subsection \<open>Vocabulary of the statements\<close>

text \<open>
  A path parameter is unusable when it is missing or its conversion fails. An outcome is
  refused when no call was made and the result is an error with the code
  \<open>InvalidArgument\<close> and a message.
\<close>

abbreviation unusable :: "(string \<Rightarrow> string + 'a) \<Rightarrow> (string \<rightharpoonup> string) \<Rightarrow> string \<Rightarrow> bool" where
  "unusable cv pp n \<equiv> pp n = None \<or> (\<exists>val err. pp n = Some val \<and> cv val = Inl err)"

abbreviation refused :: "('eu, 'r) outcome \<Rightarrow> bool" where
  "refused out \<equiv>
     snd out = [] \<and> (\<exists>e. fst (fst out) = Inl e \<and> Code e = InvalidArgument \<and> Message e \<noteq> [])"

section \<open>The routes of the gateway\<close>

lemma pattern_GetDomain_eq:
  "pattern_KeyTransparency_GetDomain_0 =
     \<lparr>ops = [(OpLitPush, 0), (OpLitPush, 1), (OpPush, 0), (OpConcatN, 1), (OpCapture, 0)],
      pool = [''v1'', ''domains'', ''domain_id''],
      vars = [''domain_id''], tailLen = 0, verb = []\<rparr>"
  by (simp add: pattern_KeyTransparency_GetDomain_0_def NewPattern_def)

lemma Match_GetDomain:
  "Match pattern_KeyTransparency_GetDomain_0 cs v = Some pp \<longleftrightarrow>
     (\<exists>d. cs = [''v1'', ''domains'', d] \<and> v = [] \<and>
        pp = [''domain_id'' \<mapsto> d])"
  by (auto simp: pattern_GetDomain_eq Match_def split: if_splits option.splits list.splits)

lemma pattern_GetEpoch_eq:
  "pattern_KeyTransparency_GetEpoch_0 =
     \<lparr>ops = [(OpLitPush, 0), (OpLitPush, 1), (OpPush, 0), (OpConcatN, 1), (OpCapture,
        0), (OpLitPush, 3), (OpPush, 0), (OpConcatN, 1), (OpCapture, 1)],
      pool = [''v1'', ''domains'', ''domain_id'', ''epochs'', ''epoch''],
      vars = [''domain_id'', ''epoch''], tailLen = 0, verb = []\<rparr>"
  by (simp add: pattern_KeyTransparency_GetEpoch_0_def NewPattern_def)

lemma Match_GetEpoch:
  "Match pattern_KeyTransparency_GetEpoch_0 cs v = Some pp \<longleftrightarrow>
     (\<exists>d e. cs = [''v1'', ''domains'', d, ''epochs'', e] \<and> v = [] \<and>
        pp = [''domain_id'' \<mapsto> d, ''epoch'' \<mapsto> e])"
  by (auto simp: pattern_GetEpoch_eq Match_def split: if_splits option.splits list.splits)

lemma pattern_GetLatestEpoch_eq:
  "pattern_KeyTransparency_GetLatestEpoch_0 =
     \<lparr>ops = [(OpLitPush, 0), (OpLitPush, 1), (OpPush, 0), (OpConcatN, 1), (OpCapture,
        0), (OpLitPush, 3)],
      pool = [''v1'', ''domains'', ''domain_id'', ''epochs''],
      vars = [''domain_id''], tailLen = 0, verb = ''latest''\<rparr>"
  by (simp add: pattern_KeyTransparency_GetLatestEpoch_0_def NewPattern_def)

lemma Match_GetLatestEpoch:
  "Match pattern_KeyTransparency_GetLatestEpoch_0 cs v = Some pp \<longleftrightarrow>
     (\<exists>d. cs = [''v1'', ''domains'', d, ''epochs''] \<and> v = ''latest'' \<and>
        pp = [''domain_id'' \<mapsto> d])"
  by (auto simp: pattern_GetLatestEpoch_eq Match_def split: if_splits option.splits list.splits)

lemma pattern_GetEpochStream_eq:
  "pattern_KeyTransparency_GetEpochStream_0 =
     \<lparr>ops = [(OpLitPush, 0), (OpLitPush, 1), (OpPush, 0), (OpConcatN, 1), (OpCapture,
        0), (OpLitPush, 3)],
      pool = [''v1'', ''domains'', ''domain_id'', ''epochs''],
      vars = [''domain_id''], tailLen = 0, verb = ''stream''\<rparr>"
  by (simp add: pattern_KeyTransparency_GetEpochStream_0_def NewPattern_def)

lemma Match_GetEpochStream:
  "Match pattern_KeyTransparency_GetEpochStream_0 cs v = Some pp \<longleftrightarrow>
     (\<exists>d. cs = [''v1'', ''domains'', d, ''epochs''] \<and> v = ''stream'' \<and>
        pp = [''domain_id'' \<mapsto> d])"
  by (auto simp: pattern_GetEpochStream_eq Match_def split: if_splits option.splits list.splits)

lemma pattern_ListMutations_eq:
  "pattern_KeyTransparency_ListMutations_0 =
     \<lparr>ops = [(OpLitPush, 0), (OpLitPush, 1), (OpPush, 0), (OpConcatN, 1), (OpCapture,
        0), (OpLitPush, 3), (OpPush, 0), (OpConcatN, 1), (OpCapture, 1), (OpLitPush, 5)],
      pool = [''v1'', ''domains'', ''domain_id'', ''epochs'', ''epoch'', ''mutations''],
      vars = [''domain_id'', ''epoch''], tailLen = 0, verb = []\<rparr>"
  by (simp add: pattern_KeyTransparency_ListMutations_0_def NewPattern_def)

lemma Match_ListMutations:
  "Match pattern_KeyTransparency_ListMutations_0 cs v = Some pp \<longleftrightarrow>
     (\<exists>d e. cs = [''v1'', ''domains'', d, ''epochs'', e,
        ''mutations''] \<and> v = [] \<and>
        pp = [''domain_id'' \<mapsto> d, ''epoch'' \<mapsto> e])"
  by (auto simp: pattern_ListMutations_eq Match_def split: if_splits option.splits list.splits)

lemma pattern_ListMutationsStream_eq:
  "pattern_KeyTransparency_ListMutationsStream_0 =
     \<lparr>ops = [(OpLitPush, 0), (OpLitPush, 1), (OpPush, 0), (OpConcatN, 1), (OpCapture,
        0), (OpLitPush, 3), (OpPush, 0), (OpConcatN, 1), (OpCapture, 1), (OpLitPush, 5)],
      pool = [''v1'', ''domains'', ''domain_id'', ''epochs'', ''epoch'', ''mutations''],
      vars = [''domain_id'', ''epoch''], tailLen = 0, verb = ''stream''\<rparr>"
  by (simp add: pattern_KeyTransparency_ListMutationsStream_0_def NewPattern_def)

lemma Match_ListMutationsStream:
  "Match pattern_KeyTransparency_ListMutationsStream_0 cs v = Some pp \<longleftrightarrow>
     (\<exists>d e. cs = [''v1'', ''domains'', d, ''epochs'', e,
        ''mutations''] \<and> v = ''stream'' \<and>
        pp = [''domain_id'' \<mapsto> d, ''epoch'' \<mapsto> e])"
  by (auto simp: pattern_ListMutationsStream_eq Match_def split: if_splits option.splits list.splits)

lemma pattern_GetEntry_eq:
  "pattern_KeyTransparency_GetEntry_0 =
     \<lparr>ops = [(OpLitPush, 0), (OpLitPush, 1), (OpPush, 0), (OpConcatN, 1), (OpCapture,
        0), (OpLitPush, 3), (OpPush, 0), (OpConcatN, 1), (OpCapture, 1), (OpLitPush, 5),
        (OpPush, 0), (OpConcatN, 1), (OpCapture, 2)],
      pool = [''v1'', ''domains'', ''domain_id'', ''apps'', ''app_id'', ''users'', ''user_id''],
      vars = [''domain_id'', ''app_id'', ''user_id''], tailLen = 0, verb = []\<rparr>"
  by (simp add: pattern_KeyTransparency_GetEntry_0_def NewPattern_def)

lemma Match_GetEntry:
  "Match pattern_KeyTransparency_GetEntry_0 cs v = Some pp \<longleftrightarrow>
     (\<exists>d a u. cs = [''v1'', ''domains'', d, ''apps'', a, ''users'',
        u] \<and> v = [] \<and>
        pp = [''domain_id'' \<mapsto> d, ''app_id'' \<mapsto> a, ''user_id'' \<mapsto> u])"
  by (auto simp: pattern_GetEntry_eq Match_def split: if_splits option.splits list.splits)

lemma pattern_ListEntryHistory_eq:
  "pattern_KeyTransparency_ListEntryHistory_0 =
     \<lparr>ops = [(OpLitPush, 0), (OpLitPush, 1), (OpPush, 0), (OpConcatN, 1), (OpCapture,
        0), (OpLitPush, 3), (OpPush, 0), (OpConcatN, 1), (OpCapture, 1), (OpLitPush, 5),
        (OpPush, 0), (OpConcatN, 1), (OpCapture, 2), (OpLitPush, 7)],
      pool = [''v1'', ''domains'', ''domain_id'', ''apps'', ''app_id'', ''users'', ''user_id'',
        ''history''],
      vars = [''domain_id'', ''app_id'', ''user_id''], tailLen = 0, verb = []\<rparr>"
  by (simp add: pattern_KeyTransparency_ListEntryHistory_0_def NewPattern_def)

lemma Match_ListEntryHistory:
  "Match pattern_KeyTransparency_ListEntryHistory_0 cs v = Some pp \<longleftrightarrow>
     (\<exists>d a u. cs = [''v1'', ''domains'', d, ''apps'', a, ''users'', u,
        ''history''] \<and> v = [] \<and>
        pp = [''domain_id'' \<mapsto> d, ''app_id'' \<mapsto> a, ''user_id'' \<mapsto> u])"
  by (auto simp: pattern_ListEntryHistory_eq Match_def split: if_splits option.splits list.splits)

lemma pattern_UpdateEntry_eq:
  "pattern_KeyTransparency_UpdateEntry_0 =
     \<lparr>ops = [(OpLitPush, 0), (OpLitPush, 1), (OpPush, 0), (OpConcatN, 1), (OpCapture,
        0), (OpLitPush, 3), (OpPush, 0), (OpConcatN, 1), (OpCapture, 1), (OpLitPush, 5),
        (OpPush, 0), (OpConcatN, 1), (OpCapture, 2)],
      pool = [''v1'', ''domains'', ''domain_id'', ''apps'', ''app_id'', ''users'', ''user_id''],
      vars = [''domain_id'', ''app_id'', ''user_id''], tailLen = 0, verb = []\<rparr>"
  by (simp add: pattern_KeyTransparency_UpdateEntry_0_def NewPattern_def)

lemma Match_UpdateEntry:
  "Match pattern_KeyTransparency_UpdateEntry_0 cs v = Some pp \<longleftrightarrow>
     (\<exists>d a u. cs = [''v1'', ''domains'', d, ''apps'', a, ''users'',
        u] \<and> v = [] \<and>
        pp = [''domain_id'' \<mapsto> d, ''app_id'' \<mapsto> a, ''user_id'' \<mapsto> u])"
  by (auto simp: pattern_UpdateEntry_eq Match_def split: if_splits option.splits list.splits)

lemmas pattern_eqs =
  pattern_GetDomain_eq pattern_GetEpoch_eq pattern_GetLatestEpoch_eq pattern_GetEpochStream_eq
  pattern_ListMutations_eq pattern_ListMutationsStream_eq pattern_GetEntry_eq
  pattern_ListEntryHistory_eq pattern_UpdateEntry_eq

lemmas Match_iffs =
  Match_GetDomain Match_GetEpoch Match_GetLatestEpoch Match_GetEpochStream
  Match_ListMutations Match_ListMutationsStream Match_GetEntry
  Match_ListEntryHistory Match_UpdateEntry

lemma Match_None_iff: "Match p cs v = None \<longleftrightarrow> (\<forall>pp. Match p cs v \<noteq> Some pp)"
  by auto

lemma registered_handlers:
  "fst (RegisterKeyTransparencyHandlerClient lib [] client) =
     [\<lparr>meth = ''GET'', pat = pattern_KeyTransparency_GetDomain_0,
        h = handle_unary lib
              (request_KeyTransparency_GetDomain_0 (conv lib) (populate_GetDomain lib) client)\<rparr>,
      \<lparr>meth = ''GET'', pat = pattern_KeyTransparency_GetEpoch_0,
        h = handle_unary lib
              (request_KeyTransparency_GetEpoch_0 (conv lib) (populate_GetEpoch lib) client)\<rparr>,
      \<lparr>meth = ''GET'', pat = pattern_KeyTransparency_GetLatestEpoch_0,
        h = handle_unary lib
              (request_KeyTransparency_GetLatestEpoch_0 (conv lib) (populate_GetLatestEpoch lib)
                 client)\<rparr>,
      \<lparr>meth = ''GET'', pat = pattern_KeyTransparency_GetEpochStream_0,
        h = handle_stream lib
              (request_KeyTransparency_GetEpochStream_0 (conv lib) (populate_GetEpoch lib)
                 client)\<rparr>,
      \<lparr>meth = ''GET'', pat = pattern_KeyTransparency_ListMutations_0,
        h = handle_unary lib
              (request_KeyTransparency_ListMutations_0 (conv lib) (populate_ListMutations lib)
                 client)\<rparr>,
      \<lparr>meth = ''GET'', pat = pattern_KeyTransparency_ListMutationsStream_0,
        h = handle_stream lib
              (request_KeyTransparency_ListMutationsStream_0 (conv lib)
                 (populate_ListMutations lib) client)\<rparr>,
      \<lparr>meth = ''GET'', pat = pattern_KeyTransparency_GetEntry_0,
        h = handle_unary lib
              (request_KeyTransparency_GetEntry_0 (conv lib) (populate_GetEntry lib) client)\<rparr>,
      \<lparr>meth = ''GET'', pat = pattern_KeyTransparency_ListEntryHistory_0,
        h = handle_unary lib
              (request_KeyTransparency_ListEntryHistory_0 (conv lib)
                 (populate_ListEntryHistory lib) client)\<rparr>,
      \<lparr>meth = ''PUT'', pat = pattern_KeyTransparency_UpdateEntry_0,
        h = handle_unary lib
              (request_KeyTransparency_UpdateEntry_0 (conv lib) (Decode lib)
                 (populate_UpdateEntry lib) client)\<rparr>]"
  by (simp add: RegisterKeyTransparencyHandlerClient_def Handle_def)

lemma registered_routes_rooted_at_domains:
  assumes "hdl \<in> set (fst (RegisterKeyTransparencyHandlerClient lib [] client))"
    and "Match (pat hdl) cs v = Some pp"
  shows "\<exists>d rest. cs = ''v1'' # ''domains'' # d # rest \<and> pp ''domain_id'' = Some d"
  using assms unfolding registered_handlers
  by (auto simp: Match_iffs)

lemma first_match_None:
  "(\<And>hdl. hdl \<in> set mux \<Longrightarrow> Match (pat hdl) cs v = None) \<Longrightarrow> first_match mux m cs v = None"
  by (induction mux) auto

lemma registered_not_domains:
  assumes "hdl \<in> set (fst (RegisterKeyTransparencyHandlerClient lib [] client))"
    and "\<not> (\<exists>d rest. cs = ''v1'' # ''domains'' # d # rest)"
  shows "Match (pat hdl) cs v = None"
proof (cases "Match (pat hdl) cs v")
  case None
  then show ?thesis .
next
  case (Some pp)
  with assms registered_routes_rooted_at_domains show ?thesis by blast
qed

lemma first_match_directories:
  "first_match (fst (RegisterKeyTransparencyHandlerClient lib [] client)) ''GET''
     [''v1'', ''directories'', ''default''] [] = None"
  by (rule first_match_None, rule registered_not_domains) simp_all

text \<open>
  Claim C1: every route of the gateway is rooted at \<open>/v1/directories/{directory_id}\<close>, and
  the directory metadata is served at \<open>GET /v1/directories/{id}\<close>. The registered
  patterns are rooted at \<open>/v1/domains/{domain_id}\<close> instead
  (\<open>registered_routes_rooted_at_domains\<close>): a \<open>GET\<close> of
  \<open>/v1/directories/default\<close> reaches no handler, whatever the library and the client.
\<close>

theorem directories_path_not_served:
  "ServeHTTP (fst (RegisterKeyTransparencyHandlerClient lib [] client))
     \<lparr>Method = ''GET'', Path = ''/v1/directories/default'', Query = q, Body = bd\<rparr> = None"
proof -
  have comps: "split_on (CHR ''/'') ''v1/directories/default'' = [''v1'', ''directories'', ''default'']"
    by simp
  have colon: "LastIndex ''default'' (CHR '':'') = None"
    by simp
  show ?thesis
    by (simp add: ServeHTTP_def comps colon first_match_directories del: split_on.simps LastIndex.simps)
qed

lemma first_match_domains:
  "first_match (fst (RegisterKeyTransparencyHandlerClient lib [] client)) ''GET''
     [''v1'', ''domains'', d] [] =
   Some (\<lparr>meth = ''GET'', pat = pattern_KeyTransparency_GetDomain_0,
        h = handle_unary lib
              (request_KeyTransparency_GetDomain_0 (conv lib) (populate_GetDomain lib) client)\<rparr>, [''domain_id'' \<mapsto> d])"
proof -
  have "Match pattern_KeyTransparency_GetDomain_0 [''v1'', ''domains'', d] [] = Some [''domain_id'' \<mapsto> d]"
    by (simp add: Match_GetDomain)
  then show ?thesis
    by (simp add: registered_handlers)
qed

lemma unary_calls:
  "c \<in> set (snd (handle_unary lib request req pp)) \<Longrightarrow> c \<in> set (snd (request req pp))"
  by (auto simp: handle_unary_def split: option.splits prod.splits sum.splits)

lemma stream_calls:
  "c \<in> set (snd (handle_stream lib request req pp)) \<Longrightarrow> c \<in> set (snd (request req pp))"
  by (auto simp: handle_stream_def split: option.splits prod.splits sum.splits)

lemma invoke_stream_calls: "snd (invoke_stream client c) = [c]"
  by (simp add: invoke_stream_def split: sum.splits)

lemma request_calls:
  "c \<in> set (snd (request_KeyTransparency_GetDomain_0 rt pq_d client req pp)) \<Longrightarrow>
     method_name c = ''GetDomain''"
  "c \<in> set (snd (request_KeyTransparency_GetEpoch_0 rt pq_e client req pp)) \<Longrightarrow>
     method_name c = ''GetEpoch''"
  "c \<in> set (snd (request_KeyTransparency_GetLatestEpoch_0 rt pq_l client req pp)) \<Longrightarrow>
     method_name c = ''GetLatestEpoch''"
  "c \<in> set (snd (request_KeyTransparency_GetEpochStream_0 rt pq_e client req pp)) \<Longrightarrow>
     method_name c = ''GetEpochStream''"
  "c \<in> set (snd (request_KeyTransparency_ListMutations_0 rt pq_m client req pp)) \<Longrightarrow>
     method_name c = ''ListMutations''"
  "c \<in> set (snd (request_KeyTransparency_ListMutationsStream_0 rt pq_m client req pp)) \<Longrightarrow>
     method_name c = ''ListMutationsStream''"
  "c \<in> set (snd (request_KeyTransparency_GetEntry_0 rt pq_n client req pp)) \<Longrightarrow>
     method_name c = ''GetEntry''"
  "c \<in> set (snd (request_KeyTransparency_ListEntryHistory_0 rt pq_h client req pp)) \<Longrightarrow>
     method_name c = ''ListEntryHistory''"
  "c \<in> set (snd (request_KeyTransparency_UpdateEntry_0 rt decode pq_u client req pp)) \<Longrightarrow>
     method_name c = ''UpdateEntry''"
  by (auto simp: request_KeyTransparency_GetDomain_0_def request_KeyTransparency_GetEpoch_0_def
      request_KeyTransparency_GetLatestEpoch_0_def request_KeyTransparency_GetEpochStream_0_def
      request_KeyTransparency_ListMutations_0_def request_KeyTransparency_ListMutationsStream_0_def
      request_KeyTransparency_GetEntry_0_def request_KeyTransparency_ListEntryHistory_0_def
      request_KeyTransparency_UpdateEntry_0_def reject_def invoke_unary_def invoke_stream_calls
      split: sum.splits)

lemma registered_handlers_call_their_method:
  assumes "(hdl, name) \<in> set (zip (fst (RegisterKeyTransparencyHandlerClient lib [] client))
      [''GetDomain'', ''GetEpoch'', ''GetLatestEpoch'', ''GetEpochStream'', ''ListMutations'',
       ''ListMutationsStream'', ''GetEntry'', ''ListEntryHistory'', ''UpdateEntry''])"
    and "c \<in> set (snd (h hdl req pp))"
  shows "method_name c = name"
  using assms unfolding registered_handlers
  by (auto dest!: unary_calls stream_calls dest: request_calls)

text \<open>
  Claim C2: the service exposes exactly the nine endpoints \<open>GetDirectory\<close>, \<open>GetEntry\<close>,
  \<open>ListEntryHistory\<close>, \<open>UpdateEntry\<close>, \<open>GetEpoch\<close>, \<open>GetLatestEpoch\<close>,
  \<open>GetEpochStream\<close>, \<open>ListMutations\<close> and \<open>ListMutationsStream\<close>, and the gateway
  registers a handler for each. The gateway registers nine handlers, each calling its own
  client method (\<open>registered_handlers_call_their_method\<close>), and the client methods are
  the eight last names and \<open>GetDomain\<close>; no call is named \<open>GetDirectory\<close>.
\<close>

theorem endpoint_names:
  "length (fst (RegisterKeyTransparencyHandlerClient lib [] client)) = 9 \<and>
   range (method_name :: 'eu call \<Rightarrow> string) =
     {''GetDomain'', ''GetEpoch'', ''GetLatestEpoch'', ''GetEpochStream'', ''ListMutations'',
      ''ListMutationsStream'', ''GetEntry'', ''ListEntryHistory'', ''UpdateEntry''} \<and>
   ''GetDirectory'' \<notin> range (method_name :: 'eu call \<Rightarrow> string)"
proof -
  have names: "method_name (c :: 'eu call) \<in> {''GetDomain'', ''GetEpoch'', ''GetLatestEpoch'',
      ''GetEpochStream'', ''ListMutations'', ''ListMutationsStream'', ''GetEntry'',
      ''ListEntryHistory'', ''UpdateEntry''}" for c
    by (cases c) simp_all
  have "''GetDomain'' = method_name (GetDomain r1 :: 'eu call)"
    "''GetEpoch'' = method_name (GetEpoch r2 :: 'eu call)"
    "''GetLatestEpoch'' = method_name (GetLatestEpoch r3 :: 'eu call)"
    "''GetEpochStream'' = method_name (GetEpochStream r2 :: 'eu call)"
    "''ListMutations'' = method_name (ListMutations r4 :: 'eu call)"
    "''ListMutationsStream'' = method_name (ListMutationsStream r4 :: 'eu call)"
    "''GetEntry'' = method_name (GetEntry r5 :: 'eu call)"
    "''ListEntryHistory'' = method_name (ListEntryHistory r6 :: 'eu call)"
    "''UpdateEntry'' = method_name (UpdateEntry r7 :: 'eu call)" for r1 r2 r3 r4 r5 r6 r7
    by simp_all
  then have sup: "{''GetDomain'', ''GetEpoch'', ''GetLatestEpoch'', ''GetEpochStream'',
      ''ListMutations'', ''ListMutationsStream'', ''GetEntry'', ''ListEntryHistory'',
      ''UpdateEntry''} \<subseteq> range (method_name :: 'eu call \<Rightarrow> string)"
    by (metis (no_types) empty_subsetI insert_subset rangeI)
  have eq: "range (method_name :: 'eu call \<Rightarrow> string) =
     {''GetDomain'', ''GetEpoch'', ''GetLatestEpoch'', ''GetEpochStream'', ''ListMutations'',
      ''ListMutationsStream'', ''GetEntry'', ''ListEntryHistory'', ''UpdateEntry''}"
    using names sup by blast
  have no: "''GetDirectory'' \<notin> range (method_name :: 'eu call \<Rightarrow> string)"
    unfolding eq by simp
  show ?thesis using eq no
    by (simp add: registered_handlers)
qed

section \<open>The request functions and the handlers\<close>

lemma path_param_Inl:
  "path_param cv pp n = Inl e \<Longrightarrow> Code e = InvalidArgument \<and> Message e \<noteq> []"
  by (auto simp: path_param_def missing_parameter_def type_mismatch_def Errorf_def
      split: option.splits sum.splits)

lemma path_param_missing:
  "pp n = None \<Longrightarrow> path_param cv pp n = Inl (missing_parameter n)"
  by (simp add: path_param_def)

lemma path_param_mismatch:
  "pp n = Some val \<Longrightarrow> cv val = Inl err \<Longrightarrow> path_param cv pp n = Inl (type_mismatch n err)"
  by (simp add: path_param_def)

lemma path_param_ok:
  "pp n = Some val \<Longrightarrow> cv val = Inr v \<Longrightarrow> path_param cv pp n = Inr v"
  by (simp add: path_param_def)

lemma path_param_unusable:
  "pp n = None \<or> (\<exists>val err. pp n = Some val \<and> cv val = Inl err) \<Longrightarrow>
   \<exists>e. path_param cv pp n = Inl e"
  by (auto simp: path_param_def)

lemma refused_reject:
  "Code e = InvalidArgument \<Longrightarrow> Message e \<noteq> [] \<Longrightarrow> refused (reject e)"
  by (simp add: reject_def)

lemma GetDomain_refused:
  assumes "unusable (String rt) pp ''domain_id''"
  shows "refused (request_KeyTransparency_GetDomain_0 rt p client req pp)"
  using path_param_unusable[of pp "''domain_id''" "String rt"] assms
  by (auto simp: request_KeyTransparency_GetDomain_0_def reject_def dest: path_param_Inl)

lemma GetLatestEpoch_refused:
  assumes "unusable (String rt) pp ''domain_id''"
  shows "refused (request_KeyTransparency_GetLatestEpoch_0 rt p client req pp)"
  using path_param_unusable[of pp "''domain_id''" "String rt"] assms
  by (auto simp: request_KeyTransparency_GetLatestEpoch_0_def reject_def dest: path_param_Inl)

lemma GetEpochStream_refused:
  assumes "unusable (String rt) pp ''domain_id''"
  shows "refused (request_KeyTransparency_GetEpochStream_0 rt p client req pp)"
  using path_param_unusable[of pp "''domain_id''" "String rt"] assms
  by (auto simp: request_KeyTransparency_GetEpochStream_0_def reject_def dest: path_param_Inl)

lemma two_unusable:
  assumes "unusable (String rt) pp ''domain_id'' \<or> unusable (Int64 rt) pp ''epoch''"
  shows "(\<exists>e. path_param (String rt) pp ''domain_id'' = Inl e) \<or>
         (\<exists>e. path_param (Int64 rt) pp ''epoch'' = Inl e)"
  using assms path_param_unusable[of pp "''domain_id''" "String rt"]
    path_param_unusable[of pp "''epoch''" "Int64 rt"]
  by blast

lemma GetEpoch_refused:
  assumes "unusable (String rt) pp ''domain_id'' \<or> unusable (Int64 rt) pp ''epoch''"
  shows "refused (request_KeyTransparency_GetEpoch_0 rt p client req pp)"
proof -
  have "(\<exists>e. path_param (String rt) pp ''domain_id'' = Inl e) \<or>
        (\<exists>e. path_param (Int64 rt) pp ''epoch'' = Inl e)"
    by (rule two_unusable[OF assms])
  then show ?thesis
    by (auto simp: request_KeyTransparency_GetEpoch_0_def reject_def split: sum.splits
        dest: path_param_Inl)
qed

lemma ListMutations_refused:
  assumes "unusable (String rt) pp ''domain_id'' \<or> unusable (Int64 rt) pp ''epoch''"
  shows "refused (request_KeyTransparency_ListMutations_0 rt p client req pp)"
proof -
  have "(\<exists>e. path_param (String rt) pp ''domain_id'' = Inl e) \<or>
        (\<exists>e. path_param (Int64 rt) pp ''epoch'' = Inl e)"
    by (rule two_unusable[OF assms])
  then show ?thesis
    by (auto simp: request_KeyTransparency_ListMutations_0_def reject_def split: sum.splits
        dest: path_param_Inl)
qed

lemma ListMutationsStream_refused:
  assumes "unusable (String rt) pp ''domain_id'' \<or> unusable (Int64 rt) pp ''epoch''"
  shows "refused (request_KeyTransparency_ListMutationsStream_0 rt p client req pp)"
proof -
  have "(\<exists>e. path_param (String rt) pp ''domain_id'' = Inl e) \<or>
        (\<exists>e. path_param (Int64 rt) pp ''epoch'' = Inl e)"
    by (rule two_unusable[OF assms])
  then show ?thesis
    by (auto simp: request_KeyTransparency_ListMutationsStream_0_def reject_def split: sum.splits
        dest: path_param_Inl)
qed

lemma three_unusable:
  assumes "unusable (String rt) pp ''domain_id'' \<or> unusable (String rt) pp ''app_id'' \<or>
           unusable (String rt) pp ''user_id''"
  shows "(\<exists>e. path_param (String rt) pp ''domain_id'' = Inl e) \<or>
         (\<exists>e. path_param (String rt) pp ''app_id'' = Inl e) \<or>
         (\<exists>e. path_param (String rt) pp ''user_id'' = Inl e)"
  using assms path_param_unusable[of pp "''domain_id''" "String rt"]
    path_param_unusable[of pp "''app_id''" "String rt"]
    path_param_unusable[of pp "''user_id''" "String rt"]
  by blast

lemma GetEntry_refused:
  assumes "unusable (String rt) pp ''domain_id'' \<or> unusable (String rt) pp ''app_id'' \<or>
           unusable (String rt) pp ''user_id''"
  shows "refused (request_KeyTransparency_GetEntry_0 rt p client req pp)"
  using three_unusable[OF assms]
  by (auto simp: request_KeyTransparency_GetEntry_0_def reject_def split: sum.splits
        dest: path_param_Inl)

lemma ListEntryHistory_refused:
  assumes "unusable (String rt) pp ''domain_id'' \<or> unusable (String rt) pp ''app_id'' \<or>
           unusable (String rt) pp ''user_id''"
  shows "refused (request_KeyTransparency_ListEntryHistory_0 rt p client req pp)"
  using three_unusable[OF assms]
  by (auto simp: request_KeyTransparency_ListEntryHistory_0_def reject_def split: sum.splits
        dest: path_param_Inl)

lemma UpdateEntry_refused:
  assumes "unusable (String rt) pp ''domain_id'' \<or> unusable (String rt) pp ''app_id'' \<or>
           unusable (String rt) pp ''user_id''"
  shows "snd (request_KeyTransparency_UpdateEntry_0 rt decode p client req pp) = [] \<and>
         (\<exists>e. fst (fst (request_KeyTransparency_UpdateEntry_0 rt decode p client req pp)) = Inl e \<and>
              Code e = InvalidArgument \<and>
              (Message e \<noteq> [] \<or> decode (Body req) = Inl (Message e)))"
  using three_unusable[OF assms]
  by (auto simp: request_KeyTransparency_UpdateEntry_0_def reject_def Errorf_def split: sum.splits
        dest: path_param_Inl)

lemma UpdateEntry_undecodable:
  "decode (Body req) = Inl err \<Longrightarrow>
   request_KeyTransparency_UpdateEntry_0 rt decode p client req pp =
     reject (Errorf InvalidArgument err)"
  by (simp add: request_KeyTransparency_UpdateEntry_0_def)

lemma UpdateEntry_decoded:
  "decode (Body req) = Inr eu \<Longrightarrow>
   path_param (String rt) pp ''domain_id'' = Inr d \<Longrightarrow>
   path_param (String rt) pp ''app_id'' = Inr a \<Longrightarrow>
   path_param (String rt) pp ''user_id'' = Inr u \<Longrightarrow>
   request_KeyTransparency_UpdateEntry_0 rt decode p client req pp =
     (case p \<lparr>UpdateEntryRequest.DomainId = d, AppId = a, UserId = u, EntryUpdate = eu\<rparr>
             (Query req) filter_KeyTransparency_UpdateEntry_0 of
        Inl err \<Rightarrow> reject (Errorf InvalidArgument err)
      | Inr protoReq \<Rightarrow> invoke_unary client (UpdateEntry protoReq))"
  by (simp add: request_KeyTransparency_UpdateEntry_0_def)

lemma PUT_handlers:
  "filter (\<lambda>hdl. meth hdl = ''PUT'') (fst (RegisterKeyTransparencyHandlerClient lib [] client)) =
     [\<lparr>meth = ''PUT'', pat = pattern_KeyTransparency_UpdateEntry_0,
        h = handle_unary lib
              (request_KeyTransparency_UpdateEntry_0 (conv lib) (Decode lib)
                 (populate_UpdateEntry lib) client)\<rparr>]"
  by (simp add: registered_handlers)

lemma handle_unary_reject:
  "AnnotateContext lib req = None \<Longrightarrow> request req pp = reject e \<Longrightarrow>
   handle_unary lib request req pp = (HTTPError e, [])"
  by (simp add: handle_unary_def reject_def)

text \<open>
  Claim C5: an \<open>EntryUpdate\<close> is submitted with the method \<open>PUT\<close> on the per-user path
  \<open>.../apps/{app}/users/{u}\<close>; the gateway decodes the body into the \<open>EntryUpdate\<close>
  field of the request, and for every body that fails to decode it returns an error with
  the code \<open>InvalidArgument\<close> without calling \<open>UpdateEntry\<close> on the client. The only
  handler registered for \<open>PUT\<close> is the one of \<open>UpdateEntry\<close>; its pattern matches
  exactly the paths \<open>/v1/domains/d/apps/a/users/u\<close>; an undecodable body gives
  \<open>InvalidArgument\<close> with the decoder's message and the empty list of calls, in the request
  function and in the handler; a decoded body becomes the \<open>EntryUpdate\<close> field of the
  message that is populated and forwarded.
\<close>

theorem UpdateEntry_PUT_and_undecodable_body:
  "filter (\<lambda>hdl. meth hdl = ''PUT'') (fst (RegisterKeyTransparencyHandlerClient lib [] client)) =
     [\<lparr>meth = ''PUT'', pat = pattern_KeyTransparency_UpdateEntry_0,
        h = handle_unary lib
              (request_KeyTransparency_UpdateEntry_0 (conv lib) (Decode lib)
                 (populate_UpdateEntry lib) client)\<rparr>] \<and>
   (Match pattern_KeyTransparency_UpdateEntry_0 cs v = Some pp \<longleftrightarrow>
      (\<exists>d a u. cs = [''v1'', ''domains'', d, ''apps'', a, ''users'', u] \<and> v = [] \<and>
         pp = [''domain_id'' \<mapsto> d, ''app_id'' \<mapsto> a, ''user_id'' \<mapsto> u])) \<and>
   (\<forall>err. Decode lib (Body req) = Inl err \<longrightarrow>
      request_KeyTransparency_UpdateEntry_0 (conv lib) (Decode lib) (populate_UpdateEntry lib)
        client req pp' = ((Inl (Errorf InvalidArgument err), no_metadata), []) \<and>
      (AnnotateContext lib req = None \<longrightarrow>
         handle_unary lib
           (request_KeyTransparency_UpdateEntry_0 (conv lib) (Decode lib)
              (populate_UpdateEntry lib) client) req pp' =
         (HTTPError (Errorf InvalidArgument err), []))) \<and>
   (\<forall>eu d a u. Decode lib (Body req) = Inr eu \<and>
       path_param (String (conv lib)) pp' ''domain_id'' = Inr d \<and>
       path_param (String (conv lib)) pp' ''app_id'' = Inr a \<and>
       path_param (String (conv lib)) pp' ''user_id'' = Inr u \<longrightarrow>
      request_KeyTransparency_UpdateEntry_0 (conv lib) (Decode lib) (populate_UpdateEntry lib)
        client req pp' =
      (case populate_UpdateEntry lib
              \<lparr>UpdateEntryRequest.DomainId = d, AppId = a, UserId = u, EntryUpdate = eu\<rparr>
              (Query req) filter_KeyTransparency_UpdateEntry_0 of
         Inl err \<Rightarrow> reject (Errorf InvalidArgument err)
       | Inr protoReq \<Rightarrow> invoke_unary client (UpdateEntry protoReq)))"
proof -
  let ?request = "request_KeyTransparency_UpdateEntry_0 (conv lib) (Decode lib)
                    (populate_UpdateEntry lib) client"
  have a: "filter (\<lambda>hdl. meth hdl = ''PUT'')
             (fst (RegisterKeyTransparencyHandlerClient lib [] client)) =
           [\<lparr>meth = ''PUT'', pat = pattern_KeyTransparency_UpdateEntry_0,
              h = handle_unary lib ?request\<rparr>]"
    by (rule PUT_handlers)
  have b: "Match pattern_KeyTransparency_UpdateEntry_0 cs v = Some pp \<longleftrightarrow>
      (\<exists>d a u. cs = [''v1'', ''domains'', d, ''apps'', a, ''users'', u] \<and> v = [] \<and>
         pp = [''domain_id'' \<mapsto> d, ''app_id'' \<mapsto> a, ''user_id'' \<mapsto> u])"
    by (rule Match_UpdateEntry)
  have c: "\<forall>err. Decode lib (Body req) = Inl err \<longrightarrow>
      ?request req pp' = ((Inl (Errorf InvalidArgument err), no_metadata), []) \<and>
      (AnnotateContext lib req = None \<longrightarrow>
         handle_unary lib ?request req pp' = (HTTPError (Errorf InvalidArgument err), []))"
    by (simp add: UpdateEntry_undecodable reject_def handle_unary_def)
  have d: "\<forall>eu d a u. Decode lib (Body req) = Inr eu \<and>
       path_param (String (conv lib)) pp' ''domain_id'' = Inr d \<and>
       path_param (String (conv lib)) pp' ''app_id'' = Inr a \<and>
       path_param (String (conv lib)) pp' ''user_id'' = Inr u \<longrightarrow>
      ?request req pp' =
      (case populate_UpdateEntry lib
              \<lparr>UpdateEntryRequest.DomainId = d, AppId = a, UserId = u, EntryUpdate = eu\<rparr>
              (Query req) filter_KeyTransparency_UpdateEntry_0 of
         Inl err \<Rightarrow> reject (Errorf InvalidArgument err)
       | Inr protoReq \<Rightarrow> invoke_unary client (UpdateEntry protoReq))"
    by (simp add: UpdateEntry_decoded)
  show ?thesis
    by (rule conjI[OF a conjI[OF b conjI[OF c d]]])
qed

theorem UpdateEntry_PUT_and_undecodable_body_witness:
  "Match pattern_KeyTransparency_UpdateEntry_0
     [''v1'', ''domains'', ''d'', ''apps'', ''a'', ''users'', ''u''] [] =
     Some [''domain_id'' \<mapsto> ''d'', ''app_id'' \<mapsto> ''a'', ''user_id'' \<mapsto> ''u''] \<and>
   Decode example_lib (Body example_request) = Inl ''EOF'' \<and>
   AnnotateContext example_lib example_request = None \<and>
   handle_unary example_lib
     (request_KeyTransparency_UpdateEntry_0 (conv example_lib) (Decode example_lib)
        (populate_UpdateEntry example_lib) example_client) example_request
     [''domain_id'' \<mapsto> ''d'', ''app_id'' \<mapsto> ''a'', ''user_id'' \<mapsto> ''u''] =
   (HTTPError (Errorf InvalidArgument ''EOF''), []) \<and>
   Decode example_lib ''{}'' = Inr None \<and>
   request_KeyTransparency_UpdateEntry_0 (conv example_lib) (Decode example_lib)
        (populate_UpdateEntry example_lib) example_client (example_request\<lparr>Body := ''{}''\<rparr>)
     [''domain_id'' \<mapsto> ''d'', ''app_id'' \<mapsto> ''a'', ''user_id'' \<mapsto> ''u''] =
   invoke_unary example_client
     (UpdateEntry \<lparr>UpdateEntryRequest.DomainId = ''d'', AppId = ''a'', UserId = ''u'',
                   EntryUpdate = None\<rparr>)"
  using UpdateEntry_PUT_and_undecodable_body[of example_lib example_client
      "[''v1'', ''domains'', ''d'', ''apps'', ''a'', ''users'', ''u'']" "[]"
      "[''domain_id'' \<mapsto> ''d'', ''app_id'' \<mapsto> ''a'', ''user_id'' \<mapsto> ''u'']"
      example_request
      "[''domain_id'' \<mapsto> ''d'', ''app_id'' \<mapsto> ''a'', ''user_id'' \<mapsto> ''u'']"]
    UpdateEntry_PUT_and_undecodable_body[of example_lib example_client
      "[''v1'', ''domains'', ''d'', ''apps'', ''a'', ''users'', ''u'']" "[]"
      "[''domain_id'' \<mapsto> ''d'', ''app_id'' \<mapsto> ''a'', ''user_id'' \<mapsto> ''u'']"
      "example_request\<lparr>Body := ''{}''\<rparr>"
      "[''domain_id'' \<mapsto> ''d'', ''app_id'' \<mapsto> ''a'', ''user_id'' \<mapsto> ''u'']"]
  by (auto simp: example_lib_def example_request_def example_runtime_def example_populate_def
      path_param_def)

text \<open>
  Claim C6: for every request in which a required path parameter is missing or fails its
  conversion, the gateway surfaces a status with the code \<open>InvalidArgument\<close> and a
  message, and forwards nothing to the client. This holds for each of the nine request
  functions and the parameters it reads. In \<open>UpdateEntry\<close> the body is decoded first, so
  there the message is the decoder's when the body does not decode.
\<close>

theorem unusable_path_parameter_refused:
  "(unusable (String rt) pp ''domain_id'' \<longrightarrow>
      refused (request_KeyTransparency_GetDomain_0 rt pq_d client req pp) \<and>
      refused (request_KeyTransparency_GetLatestEpoch_0 rt pq_l client req pp) \<and>
      refused (request_KeyTransparency_GetEpochStream_0 rt pq_e client req pp)) \<and>
   (unusable (String rt) pp ''domain_id'' \<or> unusable (Int64 rt) pp ''epoch'' \<longrightarrow>
      refused (request_KeyTransparency_GetEpoch_0 rt pq_e client req pp) \<and>
      refused (request_KeyTransparency_ListMutations_0 rt pq_m client req pp) \<and>
      refused (request_KeyTransparency_ListMutationsStream_0 rt pq_m client req pp)) \<and>
   (unusable (String rt) pp ''domain_id'' \<or> unusable (String rt) pp ''app_id'' \<or>
    unusable (String rt) pp ''user_id'' \<longrightarrow>
      refused (request_KeyTransparency_GetEntry_0 rt pq_n client req pp) \<and>
      refused (request_KeyTransparency_ListEntryHistory_0 rt pq_h client req pp) \<and>
      snd (request_KeyTransparency_UpdateEntry_0 rt decode pq_u client req pp) = [] \<and>
      (\<exists>e. fst (fst (request_KeyTransparency_UpdateEntry_0 rt decode pq_u client req pp)) = Inl e \<and>
           Code e = InvalidArgument) \<and>
      (\<forall>eu. decode (Body req) = Inr eu \<longrightarrow>
         refused (request_KeyTransparency_UpdateEntry_0 rt decode pq_u client req pp)))"
proof -
  have one: "unusable (String rt) pp ''domain_id'' \<longrightarrow>
      refused (request_KeyTransparency_GetDomain_0 rt pq_d client req pp) \<and>
      refused (request_KeyTransparency_GetLatestEpoch_0 rt pq_l client req pp) \<and>
      refused (request_KeyTransparency_GetEpochStream_0 rt pq_e client req pp)"
  proof
    assume u: "unusable (String rt) pp ''domain_id''"
    show "refused (request_KeyTransparency_GetDomain_0 rt pq_d client req pp) \<and>
      refused (request_KeyTransparency_GetLatestEpoch_0 rt pq_l client req pp) \<and>
      refused (request_KeyTransparency_GetEpochStream_0 rt pq_e client req pp)"
      using u by (intro conjI GetDomain_refused GetLatestEpoch_refused GetEpochStream_refused)
  qed
  have two: "unusable (String rt) pp ''domain_id'' \<or> unusable (Int64 rt) pp ''epoch'' \<longrightarrow>
      refused (request_KeyTransparency_GetEpoch_0 rt pq_e client req pp) \<and>
      refused (request_KeyTransparency_ListMutations_0 rt pq_m client req pp) \<and>
      refused (request_KeyTransparency_ListMutationsStream_0 rt pq_m client req pp)"
  proof
    assume u: "unusable (String rt) pp ''domain_id'' \<or> unusable (Int64 rt) pp ''epoch''"
    show "refused (request_KeyTransparency_GetEpoch_0 rt pq_e client req pp) \<and>
      refused (request_KeyTransparency_ListMutations_0 rt pq_m client req pp) \<and>
      refused (request_KeyTransparency_ListMutationsStream_0 rt pq_m client req pp)"
      using u by (intro conjI GetEpoch_refused ListMutations_refused ListMutationsStream_refused)
  qed
  have three: "unusable (String rt) pp ''domain_id'' \<or> unusable (String rt) pp ''app_id'' \<or>
    unusable (String rt) pp ''user_id'' \<longrightarrow>
      refused (request_KeyTransparency_GetEntry_0 rt pq_n client req pp) \<and>
      refused (request_KeyTransparency_ListEntryHistory_0 rt pq_h client req pp) \<and>
      snd (request_KeyTransparency_UpdateEntry_0 rt decode pq_u client req pp) = [] \<and>
      (\<exists>e. fst (fst (request_KeyTransparency_UpdateEntry_0 rt decode pq_u client req pp)) = Inl e \<and>
           Code e = InvalidArgument) \<and>
      (\<forall>eu. decode (Body req) = Inr eu \<longrightarrow>
         refused (request_KeyTransparency_UpdateEntry_0 rt decode pq_u client req pp))"
  proof
    assume u: "unusable (String rt) pp ''domain_id'' \<or> unusable (String rt) pp ''app_id'' \<or>
      unusable (String rt) pp ''user_id''"
    have upd: "snd (request_KeyTransparency_UpdateEntry_0 rt decode pq_u client req pp) = [] \<and>
         (\<exists>e. fst (fst (request_KeyTransparency_UpdateEntry_0 rt decode pq_u client req pp)) = Inl e \<and>
              Code e = InvalidArgument \<and>
              (Message e \<noteq> [] \<or> decode (Body req) = Inl (Message e)))"
      using u by (rule UpdateEntry_refused)
    have a: "refused (request_KeyTransparency_GetEntry_0 rt pq_n client req pp)"
      using u by (rule GetEntry_refused)
    have b: "refused (request_KeyTransparency_ListEntryHistory_0 rt pq_h client req pp)"
      using u by (rule ListEntryHistory_refused)
    have c: "snd (request_KeyTransparency_UpdateEntry_0 rt decode pq_u client req pp) = []"
      using upd by blast
    have d: "\<exists>e. fst (fst (request_KeyTransparency_UpdateEntry_0 rt decode pq_u client req pp)) = Inl e \<and>
           Code e = InvalidArgument"
      using upd by blast
    have e: "\<forall>eu. decode (Body req) = Inr eu \<longrightarrow>
         refused (request_KeyTransparency_UpdateEntry_0 rt decode pq_u client req pp)"
      using upd by auto
    show "refused (request_KeyTransparency_GetEntry_0 rt pq_n client req pp) \<and>
      refused (request_KeyTransparency_ListEntryHistory_0 rt pq_h client req pp) \<and>
      snd (request_KeyTransparency_UpdateEntry_0 rt decode pq_u client req pp) = [] \<and>
      (\<exists>e. fst (fst (request_KeyTransparency_UpdateEntry_0 rt decode pq_u client req pp)) = Inl e \<and>
           Code e = InvalidArgument) \<and>
      (\<forall>eu. decode (Body req) = Inr eu \<longrightarrow>
         refused (request_KeyTransparency_UpdateEntry_0 rt decode pq_u client req pp))"
      by (rule conjI[OF a conjI[OF b conjI[OF c conjI[OF d e]]]])
  qed
  show ?thesis
    by (rule conjI[OF one conjI[OF two three]])
qed

theorem unusable_path_parameter_refused_witness:
  "unusable (String example_runtime) Map.empty ''domain_id'' \<and>
   request_KeyTransparency_GetDomain_0 example_runtime example_populate example_client
     example_request Map.empty = reject (missing_parameter ''domain_id'') \<and>
   refused (request_KeyTransparency_GetDomain_0 example_runtime example_populate example_client
     example_request Map.empty) \<and>
   refused (request_KeyTransparency_GetLatestEpoch_0 example_runtime example_populate
     example_client example_request Map.empty) \<and>
   refused (request_KeyTransparency_GetEpochStream_0 example_runtime example_populate
     example_client example_request Map.empty) \<and>
   refused (request_KeyTransparency_GetEpoch_0 example_runtime example_populate example_client
     example_request Map.empty) \<and>
   refused (request_KeyTransparency_ListMutations_0 example_runtime example_populate
     example_client example_request Map.empty) \<and>
   refused (request_KeyTransparency_ListMutationsStream_0 example_runtime example_populate
     example_client example_request Map.empty) \<and>
   refused (request_KeyTransparency_GetEntry_0 example_runtime example_populate example_client
     example_request Map.empty) \<and>
   refused (request_KeyTransparency_ListEntryHistory_0 example_runtime example_populate
     example_client example_request Map.empty) \<and>
   Decode example_lib ''{}'' = Inr None \<and>
   refused (request_KeyTransparency_UpdateEntry_0 example_runtime (Decode example_lib)
     example_populate example_client (example_request\<lparr>Body := ''{}''\<rparr>) Map.empty)"
proof -
  have d: "Decode example_lib (Body (example_request\<lparr>Body := ''{}''\<rparr>)) = Inr None"
    by (simp add: example_lib_def)
  have g: "request_KeyTransparency_GetDomain_0 example_runtime example_populate example_client
     example_request Map.empty = reject (missing_parameter ''domain_id'')"
    by (simp add: request_KeyTransparency_GetDomain_0_def path_param_def)
  show ?thesis
    using d g unusable_path_parameter_refused[where rt = example_runtime and pp = Map.empty
        and client = example_client and req = example_request and pq_d = example_populate
        and pq_e = example_populate and pq_l = example_populate and pq_m = example_populate
        and pq_n = example_populate and pq_h = example_populate and pq_u = example_populate
        and decode = "Decode example_lib"]
      unusable_path_parameter_refused[where rt = example_runtime and pp = Map.empty
        and client = example_client and req = "example_request\<lparr>Body := ''{}''\<rparr>"
        and pq_d = example_populate
        and pq_e = example_populate and pq_l = example_populate and pq_m = example_populate
        and pq_n = example_populate and pq_h = example_populate and pq_u = example_populate
        and decode = "Decode example_lib"]
    by simp
qed

lemma epoch_type_mismatch_example:
  "request_KeyTransparency_GetEpoch_0 example_runtime example_populate example_client
     example_request [''domain_id'' \<mapsto> ''d'', ''epoch'' \<mapsto> ''1.5''] =
   reject (type_mismatch ''epoch'' ''invalid syntax'')"
  by (simp add: request_KeyTransparency_GetEpoch_0_def path_param_def example_runtime_def
      example_Int64_def)

lemma GetEntry_keyed_by_domain_app_user:
  "pp ''domain_id'' = Some d \<Longrightarrow> pp ''app_id'' = Some a \<Longrightarrow> pp ''user_id'' = Some u \<Longrightarrow>
   String rt d = Inr d' \<Longrightarrow> String rt a = Inr a' \<Longrightarrow> String rt u = Inr u' \<Longrightarrow>
   request_KeyTransparency_GetEntry_0 rt populate client req pp =
     (case populate \<lparr>GetEntryRequest.DomainId = d', AppId = a', UserId = u'\<rparr> (Query req)
             filter_KeyTransparency_GetEntry_0 of
        Inl err \<Rightarrow> reject (Errorf InvalidArgument err)
      | Inr protoReq \<Rightarrow> invoke_unary client (GetEntry protoReq))"
  by (simp add: request_KeyTransparency_GetEntry_0_def path_param_def)

lemma GetEntry_forwarded_only_with_all_three:
  "snd (request_KeyTransparency_GetEntry_0 rt populate client req pp) \<noteq> [] \<Longrightarrow>
   pp ''domain_id'' \<noteq> None \<and> pp ''app_id'' \<noteq> None \<and> pp ''user_id'' \<noteq> None"
  by (auto simp: request_KeyTransparency_GetEntry_0_def path_param_def reject_def
      split: option.splits sum.splits)




lemma RegisterKeyTransparencyHandler_returns_nil:
  "snd (RegisterKeyTransparencyHandler lib new_client mux conn) = None"
  by (simp add: RegisterKeyTransparencyHandler_def RegisterKeyTransparencyHandlerClient_def Let_def)

text \<open>
  Claim C10: if \<open>RegisterKeyTransparencyHandlerFromEndpoint\<close> dials the endpoint
  successfully and the registration then returns an error, the connection is closed before
  the function returns. The deferred function closes it whenever the returned error is not
  nil, and no goroutine is left to close it later. (The registration of this file always
  returns nil, \<open>RegisterKeyTransparencyHandler_returns_nil\<close>, so the statement is about the
  body of the function with any registration.)
\<close>

theorem connection_closed_when_registration_fails:
  "Dial endpoint = Inr conn \<and> register mux conn = (mux', Some e) \<longrightarrow>
   fst (dial_and_register Dial close_error register mux endpoint w) = (mux', Some e) \<and>
   conn \<notin> set (open_conns (snd (dial_and_register Dial close_error register mux endpoint w))) \<and>
   close_when_done (snd (dial_and_register Dial close_error register mux endpoint w)) =
     close_when_done w"
  by (auto simp: dial_and_register_def close_conn_def Let_def split: option.splits)

theorem connection_closed_when_registration_fails_witness:
  "(\<lambda>ep. Inr (7 :: nat)) ''localhost:8080'' = (Inr 7 :: status + nat) \<and>
   (\<lambda>mux conn. (mux, Some (Errorf Internal ''registration failed''))) [1 :: nat] (7 :: nat) =
     ([1], Some (Errorf Internal ''registration failed'')) \<and>
   dial_and_register (\<lambda>ep. Inr 7) (\<lambda>conn. None)
     (\<lambda>mux conn. (mux, Some (Errorf Internal ''registration failed''))) [1 :: nat]
     ''localhost:8080'' \<lparr>open_conns = [3 :: nat], close_when_done = [3], printed = []\<rparr> =
   (([1], Some (Errorf Internal ''registration failed'')),
    \<lparr>open_conns = [3], close_when_done = [3], printed = []\<rparr>)"
  using connection_closed_when_registration_fails[where Dial = "\<lambda>ep. Inr (7 :: nat)"
      and endpoint = "''localhost:8080''" and conn = 7
      and register = "\<lambda>mux conn. (mux, Some (Errorf Internal ''registration failed''))"
      and mux = "[1 :: nat]" and mux' = "[1 :: nat]" and e = "Errorf Internal ''registration failed''"
      and close_error = "\<lambda>conn. None"
      and w = "\<lparr>open_conns = [3 :: nat], close_when_done = [3], printed = []\<rparr>"]
  by (simp add: dial_and_register_def close_conn_def Let_def)

section \<open>The monitor: transport credentials\<close>

lemma LastIndex_None_iff: "LastIndex s c = None \<longleftrightarrow> c \<notin> set s"
  by (induction s) (auto split: option.splits)

lemma IndexByte_None_iff: "IndexByte s c = None \<longleftrightarrow> c \<notin> set s"
  by (induction s) auto

lemma LastIndex_append:
  "c \<notin> set p \<Longrightarrow> LastIndex (hst @ c # p) c = Some (length hst)"
  by (induction hst) (auto simp: LastIndex_None_iff[THEN iffD2] split: option.splits)

lemma SplitHostPort_no_colon:
  "CHR '':'' \<notin> set hostport \<Longrightarrow>
   SplitHostPort hostport = Inl \<lparr>Err = ''missing port in address'', Addr = hostport\<rparr>"
  by (simp add: SplitHostPort_def LastIndex_None_iff[THEN iffD2])

lemma SplitHostPort_host_port:
  assumes "CHR '':'' \<notin> set hst" "CHR ''['' \<notin> set hst" "CHR '']'' \<notin> set hst"
    and "CHR '':'' \<notin> set prt" "CHR ''['' \<notin> set prt" "CHR '']'' \<notin> set prt"
  shows "SplitHostPort (hst @ CHR '':'' # prt) = Inr (hst, prt)"
proof -
  have i: "LastIndex (hst @ CHR '':'' # prt) (CHR '':'') = Some (length hst)"
    using assms(4) by (rule LastIndex_append)
  have first: "(hst @ CHR '':'' # prt) ! 0 \<noteq> CHR ''[''"
    using assms(2) by (cases hst) auto
  have nocolon: "IndexByte hst (CHR '':'') = None"
    using assms(1) by (simp add: IndexByte_None_iff)
  have nob: "IndexByte (hst @ CHR '':'' # prt) (CHR ''['') = None"
    "IndexByte (hst @ CHR '':'' # prt) (CHR '']'') = None"
    using assms by (simp_all add: IndexByte_None_iff)
  show ?thesis
    by (simp add: SplitHostPort_def i first nocolon nob)
qed

text \<open>
  Claim C9: for every kt-url that is not of the form host:port, \<open>transportCreds\<close> returns
  the error of the split and no credentials; with the insecure flag it returns TLS
  credentials that skip the certificate check, and otherwise credentials that verify the
  certificate for the extracted host. The form host:port is what \<open>net.SplitHostPort\<close>
  accepts: the error of a failed split is returned as it is, a url without a colon fails
  with "missing port in address", and a host and a port without colons and brackets, joined
  by a colon, are split into the two.
\<close>

theorem transportCreds_cases:
  "(\<forall>e. SplitHostPort ktURL = Inl e \<longrightarrow> transportCreds ktURL insecure = Inl e) \<and>
   (CHR '':'' \<notin> set ktURL \<longrightarrow>
      transportCreds ktURL insecure =
        Inl \<lparr>Err = ''missing port in address'', Addr = ktURL\<rparr>) \<and>
   (\<forall>host port. SplitHostPort ktURL = Inr (host, port) \<longrightarrow>
      transportCreds ktURL True = Inr (NewTLS \<lparr>InsecureSkipVerify = True, ServerName = []\<rparr>) \<and>
      transportCreds ktURL False =
        Inr (NewTLS \<lparr>InsecureSkipVerify = False, ServerName = host\<rparr>)) \<and>
   (\<forall>host port. ktURL = host @ CHR '':'' # port \<and>
      set host \<inter> {CHR '':'', CHR ''['', CHR '']''} = {} \<and>
      set port \<inter> {CHR '':'', CHR ''['', CHR '']''} = {} \<longrightarrow>
      SplitHostPort ktURL = Inr (host, port))"
proof -
  have a: "(\<forall>e. SplitHostPort ktURL = Inl e \<longrightarrow> transportCreds ktURL insecure = Inl e) \<and>
   (CHR '':'' \<notin> set ktURL \<longrightarrow>
      transportCreds ktURL insecure =
        Inl \<lparr>Err = ''missing port in address'', Addr = ktURL\<rparr>) \<and>
   (\<forall>host port. SplitHostPort ktURL = Inr (host, port) \<longrightarrow>
      transportCreds ktURL True = Inr (NewTLS \<lparr>InsecureSkipVerify = True, ServerName = []\<rparr>) \<and>
      transportCreds ktURL False =
        Inr (NewTLS \<lparr>InsecureSkipVerify = False, ServerName = host\<rparr>))"
    by (simp add: transportCreds_def SplitHostPort_no_colon NewClientTLSFromCert_def)
  have b: "\<forall>host port. ktURL = host @ CHR '':'' # port \<and>
      set host \<inter> {CHR '':'', CHR ''['', CHR '']''} = {} \<and>
      set port \<inter> {CHR '':'', CHR ''['', CHR '']''} = {} \<longrightarrow>
      SplitHostPort ktURL = Inr (host, port)"
    using SplitHostPort_host_port by auto
  from a b show ?thesis by blast
qed

theorem transportCreds_cases_witness:
  "CHR '':'' \<notin> set ''localhost'' \<and>
   transportCreds ''localhost'' False =
     Inl \<lparr>Err = ''missing port in address'', Addr = ''localhost''\<rparr> \<and>
   transportCreds ''localhost'' True =
     Inl \<lparr>Err = ''missing port in address'', Addr = ''localhost''\<rparr> \<and>
   ''localhost:443'' = ''localhost'' @ CHR '':'' # ''443'' \<and>
   SplitHostPort ''localhost:443'' = Inr (''localhost'', ''443'') \<and>
   transportCreds ''localhost:443'' True =
     Inr (NewTLS \<lparr>InsecureSkipVerify = True, ServerName = []\<rparr>) \<and>
   transportCreds ''localhost:443'' False =
     Inr (NewTLS \<lparr>InsecureSkipVerify = False, ServerName = ''localhost''\<rparr>)"
proof -
  note t1 = transportCreds_cases[of "''localhost''"]
  note t2 = transportCreds_cases[of "''localhost:443''" True]
  have nc: "CHR '':'' \<notin> set ''localhost''"
    by simp
  have a: "transportCreds ''localhost'' insecure =
             Inl \<lparr>Err = ''missing port in address'', Addr = ''localhost''\<rparr>" for insecure
    by (rule t1[of insecure, THEN conjunct2, THEN conjunct1, THEN mp]) (rule nc)
  have b: "SplitHostPort ''localhost:443'' = Inr (''localhost'', ''443'')"
    by (rule t2[THEN conjunct2, THEN conjunct2, THEN conjunct2, THEN spec, THEN spec, THEN mp])
      simp
  have c: "transportCreds ''localhost:443'' True =
      Inr (NewTLS \<lparr>InsecureSkipVerify = True, ServerName = []\<rparr>) \<and>
    transportCreds ''localhost:443'' False =
      Inr (NewTLS \<lparr>InsecureSkipVerify = False, ServerName = ''localhost''\<rparr>)"
    by (rule t2[THEN conjunct2, THEN conjunct2, THEN conjunct1, THEN spec, THEN spec, THEN mp])
      (rule b)
  have e: "''localhost:443'' = ''localhost'' @ CHR '':'' # ''443''"
    by simp
  show ?thesis
    by (rule conjI[OF nc conjI[OF a conjI[OF a conjI[OF e conjI[OF b c]]]]])
qed

lemma transportCreds_examples:
  "transportCreds ''[::1]:443'' False =
     Inr (NewTLS \<lparr>InsecureSkipVerify = False, ServerName = ''::1''\<rparr>)"
  "transportCreds ''a:b:443'' True =
     Inl \<lparr>Err = ''too many colons in address'', Addr = ''a:b:443''\<rparr>"
  "transportCreds ''https://localhost'' False =
     Inr (NewTLS \<lparr>InsecureSkipVerify = False, ServerName = ''https''\<rparr>)"
  by (simp_all add: transportCreds_def SplitHostPort_def NewClientTLSFromCert_def)

section \<open>The monitor: retry with backoff\<close>

lemma durations: "Millisecond = 1000000" "Second = 1000000000" "Minute = 60000000000"
  by (simp_all add: Millisecond_def Second_def Minute_def)

lemma steady_main: "steady main_backoff"
  by (simp add: steady_def main_backoff_def durations)

lemma floor_three_halves: "\<lfloor>of_int p * (3 / 2 :: rat)\<rfloor> = (3 * p) div 2"
proof -
  have "of_int p * (3 / 2 :: rat) = of_int (3 * p) / of_int 2"
    by simp
  then show ?thesis
    by (simp only: floor_divide_of_int_eq)
qed

lemma Duration_next:
  assumes "steady b"
  shows "Duration b =
    (MinD b + delta b, b\<lparr>delta := min Second ((3 * (MinD b + delta b)) div 2) - Millisecond\<rparr>)"
proof -
  from assms have F: "Factor b = 3 / 2" and Mn: "MinD b = Millisecond" and Mx: "MaxD b = Second"
    by (simp_all add: steady_def)
  have fl: "\<lfloor>of_int (MinD b + delta b) * Factor b\<rfloor> = (3 * (MinD b + delta b)) div 2"
    unfolding F by (rule floor_three_halves)
  show ?thesis
    unfolding Duration_def Let_def fl Mx by (simp only: Mn)
qed

lemma Duration_steady:
  assumes "steady b"
  shows "Millisecond \<le> fst (Duration b)" and "fst (Duration b) \<le> Second"
    and "steady (snd (Duration b))"
    and "fst (Duration (snd (Duration b))) = min Second ((3 * fst (Duration b)) div 2)"
    and "fst (Duration b) \<le> fst (Duration (snd (Duration b)))"
proof -
  note n = Duration_next[OF assms]
  from assms have b: "MinD b = 1000000" "MaxD b = 1000000000" "0 \<le> delta b"
    "delta b \<le> 999000000" "Factor b = 3 / 2"
    by (simp_all add: steady_def durations)
  show 1: "Millisecond \<le> fst (Duration b)" and 2: "fst (Duration b) \<le> Second"
    using b by (simp_all add: n durations)
  show 3: "steady (snd (Duration b))"
    using b by (simp add: n steady_def durations)
  note n' = Duration_next[OF 3]
  have "fst (Duration (snd (Duration b))) = MinD (snd (Duration b)) + delta (snd (Duration b))"
    by (simp add: n')
  also have "\<dots> = min Second ((3 * fst (Duration b)) div 2)"
    using b by (simp add: n durations)
  finally show 4: "fst (Duration (snd (Duration b))) = min Second ((3 * fst (Duration b)) div 2)" .
  then show "fst (Duration b) \<le> fst (Duration (snd (Duration b)))"
    using 1 2 by (simp add: durations)
qed

lemma Retry_returns:
  assumes "steady b"
  shows "\<exists>err b' t n. Retry f retry deadline b now k = Some (err, b', t, n) \<and>
           steady b' \<and> k < n \<and>
           (IsRetryable err retry \<longrightarrow> t = deadline) \<and>
           (\<not> IsRetryable err retry \<longrightarrow> t < deadline \<or> t = now) \<and>
           err = f (n - 1)"
  using assms
proof (induction "nat (deadline - now)" arbitrary: b now k rule: less_induct)
  case less
  note st = \<open>steady b\<close>
  show ?case
  proof (cases "IsRetryable (f k) retry")
    case False
    then show ?thesis
      using st by (subst Retry.simps) simp
  next
    case True
    show ?thesis
    proof (cases "deadline \<le> now + fst (Duration b)")
      case True
      with \<open>IsRetryable (f k) retry\<close> show ?thesis
        using Duration_steady(3)[OF st] by (subst Retry.simps) simp
    next
      case False
      have pos: "0 < fst (Duration b)"
        using Duration_steady(1)[OF st] by (simp add: durations)
      with False have "nat (deadline - (now + fst (Duration b))) < nat (deadline - now)"
        by simp
      from less.hyps[OF this Duration_steady(3)[OF st], of "Suc k"]
      obtain err b' t n where
        r: "Retry f retry deadline (snd (Duration b)) (now + fst (Duration b)) (Suc k) =
              Some (err, b', t, n)"
        and p: "steady b'" "Suc k < n" "IsRetryable err retry \<longrightarrow> t = deadline"
          "\<not> IsRetryable err retry \<longrightarrow> t < deadline \<or> t = now + fst (Duration b)"
          "err = f (n - 1)"
        by blast
      have "Retry f retry deadline b now k = Some (err, b', t, n)"
        using \<open>IsRetryable (f k) retry\<close> False r by (subst Retry.simps) simp
      moreover have "\<not> IsRetryable err retry \<longrightarrow> t < deadline \<or> t = now"
        using p(4) False by auto
      ultimately show ?thesis
        using p by auto
    qed
  qed
qed


lemma steady_nth_backoff: "steady (nth_backoff main_backoff n)"
  by (induction n) (simp_all add: steady_main Duration_steady(3))

lemma nth_pause_0: "nth_pause main_backoff 0 = Millisecond"
  by (simp add: nth_pause_def Duration_next[OF steady_main]) (simp add: main_backoff_def)

lemma nth_pause_Suc:
  "nth_pause main_backoff (Suc n) = min Second ((3 * nth_pause main_backoff n) div 2)"
  using Duration_steady(4)[OF steady_nth_backoff[of n]] by (simp add: nth_pause_def)

lemma nth_pause_bounds:
  "Millisecond \<le> nth_pause main_backoff n" "nth_pause main_backoff n \<le> Second"
  "nth_pause main_backoff n \<le> nth_pause main_backoff (Suc n)"
  using Duration_steady(1,2,5)[OF steady_nth_backoff[of n]] by (simp_all add: nth_pause_def)

lemma nth_pause_mono: "n \<le> m \<Longrightarrow> nth_pause main_backoff n \<le> nth_pause main_backoff m"
  by (rule lift_Suc_mono_le) (rule nth_pause_bounds(3))

lemma nth_pause_values:
  "nth_pause main_backoff 17 = 985261177" "nth_pause main_backoff 18 = Second"
proof -
  have p0: "nth_pause main_backoff 0 = 1000000"
    by (simp add: nth_pause_0 durations)
  have p1: "nth_pause main_backoff 1 = 1500000"
    using nth_pause_Suc[of 0] p0 by (simp add: durations eval_nat_numeral)
  have p2: "nth_pause main_backoff 2 = 2250000"
    using nth_pause_Suc[of 1] p1 by (simp add: durations eval_nat_numeral)
  have p3: "nth_pause main_backoff 3 = 3375000"
    using nth_pause_Suc[of 2] p2 by (simp add: durations eval_nat_numeral)
  have p4: "nth_pause main_backoff 4 = 5062500"
    using nth_pause_Suc[of 3] p3 by (simp add: durations eval_nat_numeral)
  have p5: "nth_pause main_backoff 5 = 7593750"
    using nth_pause_Suc[of 4] p4 by (simp add: durations eval_nat_numeral)
  have p6: "nth_pause main_backoff 6 = 11390625"
    using nth_pause_Suc[of 5] p5 by (simp add: durations eval_nat_numeral)
  have p7: "nth_pause main_backoff 7 = 17085937"
    using nth_pause_Suc[of 6] p6 by (simp add: durations eval_nat_numeral)
  have p8: "nth_pause main_backoff 8 = 25628905"
    using nth_pause_Suc[of 7] p7 by (simp add: durations eval_nat_numeral)
  have p9: "nth_pause main_backoff 9 = 38443357"
    using nth_pause_Suc[of 8] p8 by (simp add: durations eval_nat_numeral)
  have p10: "nth_pause main_backoff 10 = 57665035"
    using nth_pause_Suc[of 9] p9 by (simp add: durations eval_nat_numeral)
  have p11: "nth_pause main_backoff 11 = 86497552"
    using nth_pause_Suc[of 10] p10 by (simp add: durations eval_nat_numeral)
  have p12: "nth_pause main_backoff 12 = 129746328"
    using nth_pause_Suc[of 11] p11 by (simp add: durations eval_nat_numeral)
  have p13: "nth_pause main_backoff 13 = 194619492"
    using nth_pause_Suc[of 12] p12 by (simp add: durations eval_nat_numeral)
  have p14: "nth_pause main_backoff 14 = 291929238"
    using nth_pause_Suc[of 13] p13 by (simp add: durations eval_nat_numeral)
  have p15: "nth_pause main_backoff 15 = 437893857"
    using nth_pause_Suc[of 14] p14 by (simp add: durations eval_nat_numeral)
  have p16: "nth_pause main_backoff 16 = 656840785"
    using nth_pause_Suc[of 15] p15 by (simp add: durations eval_nat_numeral)
  have p17: "nth_pause main_backoff 17 = 985261177"
    using nth_pause_Suc[of 16] p16 by (simp add: durations eval_nat_numeral)
  have p18: "nth_pause main_backoff 18 = 1000000000"
    using nth_pause_Suc[of 17] p17 by (simp add: durations eval_nat_numeral)
  show "nth_pause main_backoff 17 = 985261177" by (rule p17)
  show "nth_pause main_backoff 18 = Second" using p18 by (simp add: durations)
qed

lemma nth_pause_cap: "18 \<le> n \<Longrightarrow> nth_pause main_backoff n = Second"
proof (induction n rule: dec_induct)
  case base
  show ?case by (rule nth_pause_values(2))
next
  case (step n)
  then show ?case by (simp add: nth_pause_Suc durations)
qed

lemma nth_pause_below_cap: "n < 18 \<Longrightarrow> nth_pause main_backoff n < Second"
proof -
  assume "n < 18"
  then have "nth_pause main_backoff n \<le> nth_pause main_backoff 17"
    by (intro nth_pause_mono) simp
  then show ?thesis by (simp add: nth_pause_values(1) durations)
qed

lemma all_unavailable:
  "main_retry_GetDirectory (\<lambda>k. Some (Errorf Unavailable [])) =
     Some (Some (Errorf Unavailable []),
           \<lparr>MinD = 1000000, MaxD = 1000000000, Factor = 3 / 2, delta = 999000000\<rparr>,
           60000000000, 76)"
  by code_simp

lemma IsRetryable_main:
  "IsRetryable (Some e) [Unavailable] \<longleftrightarrow>
     Code e = Unavailable \<or> Code e = DeadlineExceeded \<or> Code e = Aborted"
  by (auto simp: IsRetryable_def)

lemma Retry_not_retryable:
  "\<not> IsRetryable (f k) retry \<Longrightarrow> Retry f retry deadline b now k = Some (f k, b, now, Suc k)"
  by (subst Retry.simps) simp

lemma Retry_again:
  "IsRetryable (f k) retry \<Longrightarrow> now + fst (Duration b) < deadline \<Longrightarrow>
   Retry f retry deadline b now k =
     Retry f retry deadline (snd (Duration b)) (now + fst (Duration b)) (Suc k)"
  by (subst Retry.simps) simp

lemma Retry_deadline:
  "IsRetryable (f k) retry \<Longrightarrow> deadline \<le> now + fst (Duration b) \<Longrightarrow>
   Retry f retry deadline b now k = Some (f k, snd (Duration b), deadline, Suc k)"
  by (subst Retry.simps) simp

text \<open>
  Claim C3: for every transient error (the classes UNAVAILABLE, DEADLINE and CONFLICT) the
  retry loop around the monitor's first \<open>GetDirectory\<close> call retries the operation, and
  for every error of another class it returns the error without retrying. With the retry
  loop modelled from the spec: an error is retried exactly when its code is
  \<open>Unavailable\<close>, \<open>DeadlineExceeded\<close> or \<open>Aborted\<close>; at any iteration such an error, while
  the pause ends before the deadline, leads to the next call, and any other error is
  returned at once; from the start, a transient first error means at least two calls, and
  another first error means one call and that error.
\<close>

theorem transient_errors_retried_others_returned:
  "(IsRetryable (Some e) [Unavailable] \<longleftrightarrow>
      Code e = Unavailable \<or> Code e = DeadlineExceeded \<or> Code e = Aborted) \<and>
   (f k = Some e \<and> (Code e = Unavailable \<or> Code e = DeadlineExceeded \<or> Code e = Aborted) \<and>
    now + fst (Duration b) < Minute \<longrightarrow>
      Retry f [Unavailable] Minute b now k =
        Retry f [Unavailable] Minute (snd (Duration b)) (now + fst (Duration b)) (Suc k)) \<and>
   (f k = Some e \<and> Code e \<noteq> Unavailable \<and> Code e \<noteq> DeadlineExceeded \<and> Code e \<noteq> Aborted \<longrightarrow>
      Retry f [Unavailable] Minute b now k = Some (Some e, b, now, Suc k)) \<and>
   (f 0 = Some e \<and> (Code e = Unavailable \<or> Code e = DeadlineExceeded \<or> Code e = Aborted) \<longrightarrow>
      (\<exists>err b' t n. main_retry_GetDirectory f = Some (err, b', t, n) \<and> 2 \<le> n \<and> err = f (n - 1))) \<and>
   (f 0 = Some e \<and> Code e \<noteq> Unavailable \<and> Code e \<noteq> DeadlineExceeded \<and> Code e \<noteq> Aborted \<longrightarrow>
      main_retry_GetDirectory f = Some (Some e, main_backoff, 0, 1))"
proof -
  have a: "IsRetryable (Some e) [Unavailable] \<longleftrightarrow>
      Code e = Unavailable \<or> Code e = DeadlineExceeded \<or> Code e = Aborted"
    by (rule IsRetryable_main)
  have b: "f k = Some e \<and> (Code e = Unavailable \<or> Code e = DeadlineExceeded \<or> Code e = Aborted) \<and>
    now + fst (Duration b) < Minute \<longrightarrow>
      Retry f [Unavailable] Minute b now k =
        Retry f [Unavailable] Minute (snd (Duration b)) (now + fst (Duration b)) (Suc k)"
    using Retry_again[of f k "[Unavailable]" now b Minute] by (auto simp: IsRetryable_main)
  have c: "f k = Some e \<and> Code e \<noteq> Unavailable \<and> Code e \<noteq> DeadlineExceeded \<and> Code e \<noteq> Aborted \<longrightarrow>
      Retry f [Unavailable] Minute b now k = Some (Some e, b, now, Suc k)"
    using Retry_not_retryable[of f k "[Unavailable]" Minute b now] by (auto simp: IsRetryable_main)
  have d: "f 0 = Some e \<and> (Code e = Unavailable \<or> Code e = DeadlineExceeded \<or> Code e = Aborted) \<longrightarrow>
      (\<exists>err b' t n. main_retry_GetDirectory f = Some (err, b', t, n) \<and> 2 \<le> n \<and> err = f (n - 1))"
  proof
    assume h: "f 0 = Some e \<and> (Code e = Unavailable \<or> Code e = DeadlineExceeded \<or> Code e = Aborted)"
    then have r: "IsRetryable (f 0) [Unavailable]"
      by (simp add: IsRetryable_main)
    have "0 + fst (Duration main_backoff) < 0 + Minute"
      using Duration_steady(2)[OF steady_main] by (simp add: durations)
    from Retry_again[of f 0 "[Unavailable]" 0 main_backoff "0 + Minute", OF r this]
    have step: "main_retry_GetDirectory f =
        Retry f [Unavailable] (0 + Minute) (snd (Duration main_backoff))
          (0 + fst (Duration main_backoff)) (Suc 0)"
      by (simp add: main_retry_GetDirectory_def)
    from Retry_returns[OF Duration_steady(3)[OF steady_main], of f "[Unavailable]" "0 + Minute"
        "0 + fst (Duration main_backoff)" "Suc 0"]
    obtain err b' t n where
      "Retry f [Unavailable] (0 + Minute) (snd (Duration main_backoff))
          (0 + fst (Duration main_backoff)) (Suc 0) = Some (err, b', t, n)"
      "Suc 0 < n" "err = f (n - 1)"
      by blast
    with step show "\<exists>err b' t n. main_retry_GetDirectory f = Some (err, b', t, n) \<and> 2 \<le> n \<and>
        err = f (n - 1)"
      by auto
  qed
  have e: "f 0 = Some e \<and> Code e \<noteq> Unavailable \<and> Code e \<noteq> DeadlineExceeded \<and> Code e \<noteq> Aborted \<longrightarrow>
      main_retry_GetDirectory f = Some (Some e, main_backoff, 0, 1)"
    using Retry_not_retryable[of f 0 "[Unavailable]" "0 + Minute" main_backoff 0]
    by (auto simp: IsRetryable_main main_retry_GetDirectory_def)
  show ?thesis
    by (rule conjI[OF a conjI[OF b conjI[OF c conjI[OF d e]]]])
qed

theorem transient_errors_retried_others_returned_witness:
  "example_attempts Unavailable 0 = Some (Errorf Unavailable ''keyserver is starting'') \<and>
   Code (Errorf Unavailable ''keyserver is starting'') = Unavailable \<and>
   main_retry_GetDirectory (example_attempts Unavailable) =
     Some (None, nth_backoff main_backoff 3, 4750000, 4) \<and>
   main_retry_GetDirectory (example_attempts DeadlineExceeded) =
     Some (None, nth_backoff main_backoff 3, 4750000, 4) \<and>
   main_retry_GetDirectory (example_attempts Aborted) =
     Some (None, nth_backoff main_backoff 3, 4750000, 4) \<and>
   example_attempts PermissionDenied 0 = Some (Errorf PermissionDenied ''keyserver is starting'') \<and>
   main_retry_GetDirectory (example_attempts PermissionDenied) =
     Some (Some (Errorf PermissionDenied ''keyserver is starting''), main_backoff, 0, 1)"
proof -
  have u: "main_retry_GetDirectory (example_attempts Unavailable) =
     Some (None, nth_backoff main_backoff 3, 4750000, 4)"
    by code_simp
  have d: "main_retry_GetDirectory (example_attempts DeadlineExceeded) =
     Some (None, nth_backoff main_backoff 3, 4750000, 4)"
    by code_simp
  have a: "main_retry_GetDirectory (example_attempts Aborted) =
     Some (None, nth_backoff main_backoff 3, 4750000, 4)"
    by code_simp
  show ?thesis
    using u d a
      transient_errors_retried_others_returned[of "Errorf Unavailable ''keyserver is starting''"
        "example_attempts Unavailable" 0 0 main_backoff]
      transient_errors_retried_others_returned[of "Errorf PermissionDenied ''keyserver is starting''"
        "example_attempts PermissionDenied" 0 0 main_backoff]
    by (simp add: example_attempts_def Errorf_def)
qed

lemma nth_pause_Suc_floor:
  "nth_pause main_backoff (Suc n) =
     min Second \<lfloor>of_int (nth_pause main_backoff n) * Factor main_backoff\<rfloor>"
proof -
  have "Factor main_backoff = 3 / 2"
    by (simp add: main_backoff_def)
  then show ?thesis
    by (simp only: nth_pause_Suc floor_three_halves)
qed

lemma Retry_nth_again:
  "IsRetryable (f k) retry \<Longrightarrow> now + nth_pause b0 k < deadline \<Longrightarrow>
   Retry f retry deadline (nth_backoff b0 k) now k =
     Retry f retry deadline (nth_backoff b0 (Suc k)) (now + nth_pause b0 k) (Suc k)"
  unfolding nth_pause_def nth_backoff.simps by (rule Retry_again)

lemma Retry_nth_deadline:
  "IsRetryable (f k) retry \<Longrightarrow> deadline \<le> now + nth_pause b0 k \<Longrightarrow>
   Retry f retry deadline (nth_backoff b0 k) now k =
     Some (f k, nth_backoff b0 (Suc k), deadline, Suc k)"
  unfolding nth_pause_def nth_backoff.simps by (rule Retry_deadline)

lemma main_retry_returns:
  "\<exists>err b t n. main_retry_GetDirectory f = Some (err, b, t, n) \<and> 0 < n \<and> err = f (n - 1) \<and>
     t \<le> Minute \<and> (IsRetryable err [Unavailable] \<longrightarrow> t = Minute)"
proof -
  from Retry_returns[OF steady_main, of f "[Unavailable]" "0 + Minute" 0 0]
  obtain err b t n where
    r: "Retry f [Unavailable] (0 + Minute) main_backoff 0 0 = Some (err, b, t, n)"
    and p: "0 < n" "IsRetryable err [Unavailable] \<longrightarrow> t = 0 + Minute"
      "\<not> IsRetryable err [Unavailable] \<longrightarrow> t < 0 + Minute \<or> t = 0" "err = f (n - 1)"
    by blast
  have "t \<le> Minute"
    using p(2,3) by (cases "IsRetryable err [Unavailable]") (auto simp: durations)
  with r p show ?thesis
    by (simp add: main_retry_GetDirectory_def)
qed

text \<open>
  Claim C4: the backoff of the monitor is exponential with base 1 millisecond, factor 1.5
  and cap 1 second, and retrying stops when the deadline of the context expires. The
  literal in \<open>main\<close> has \<open>Min\<close> 1 ms, \<open>Max\<close> 1 s and \<open>Factor\<close> 3/2, and the timeout is
  one minute. With the backoff modelled from the spec: the first pause is the base, each
  pause is the previous one times the factor (cut to whole nanoseconds) and at most the cap,
  the pauses below the cap are the first 18, and the loop waits these pauses in turn; the
  loop always returns, at a time not after the deadline, and when the last error is a
  retried one it returns at the deadline.
\<close>

theorem backoff_parameters_and_deadline:
  "MinD main_backoff = Millisecond \<and> Millisecond = 1000000 \<and>
   MaxD main_backoff = Second \<and> Second = 1000000000 \<and>
   Factor main_backoff = 3 / 2 \<and> Minute = 60 * Second \<and>
   nth_pause main_backoff 0 = Millisecond \<and>
   (\<forall>n. nth_pause main_backoff (Suc n) =
          min Second \<lfloor>of_int (nth_pause main_backoff n) * Factor main_backoff\<rfloor>) \<and>
   (\<forall>n. nth_pause main_backoff n \<le> nth_pause main_backoff (Suc n)) \<and>
   (\<forall>n. n < 18 \<longrightarrow> nth_pause main_backoff n < Second) \<and>
   (\<forall>n. 18 \<le> n \<longrightarrow> nth_pause main_backoff n = Second) \<and>
   (\<forall>k now. IsRetryable (f k) [Unavailable] \<longrightarrow>
      (now + nth_pause main_backoff k < Minute \<longrightarrow>
         Retry f [Unavailable] Minute (nth_backoff main_backoff k) now k =
           Retry f [Unavailable] Minute (nth_backoff main_backoff (Suc k))
             (now + nth_pause main_backoff k) (Suc k)) \<and>
      (Minute \<le> now + nth_pause main_backoff k \<longrightarrow>
         Retry f [Unavailable] Minute (nth_backoff main_backoff k) now k =
           Some (f k, nth_backoff main_backoff (Suc k), Minute, Suc k))) \<and>
   (\<exists>err b t n. main_retry_GetDirectory f = Some (err, b, t, n) \<and> 0 < n \<and> err = f (n - 1) \<and>
      t \<le> Minute \<and> (IsRetryable err [Unavailable] \<longrightarrow> t = Minute))"
proof -
  have params: "MinD main_backoff = Millisecond" "Millisecond = 1000000"
    "MaxD main_backoff = Second" "Second = 1000000000" "Factor main_backoff = 3 / 2"
    "Minute = 60 * Second"
    by (simp_all add: main_backoff_def durations)
  have step: "\<forall>n. nth_pause main_backoff (Suc n) =
          min Second \<lfloor>of_int (nth_pause main_backoff n) * Factor main_backoff\<rfloor>"
    using nth_pause_Suc_floor by blast
  have mono: "\<forall>n. nth_pause main_backoff n \<le> nth_pause main_backoff (Suc n)"
    using nth_pause_bounds(3) by blast
  have below: "\<forall>n. n < 18 \<longrightarrow> nth_pause main_backoff n < Second"
    using nth_pause_below_cap by blast
  have cap: "\<forall>n. 18 \<le> n \<longrightarrow> nth_pause main_backoff n = Second"
    using nth_pause_cap by blast
  have loop: "\<forall>k now. IsRetryable (f k) [Unavailable] \<longrightarrow>
      (now + nth_pause main_backoff k < Minute \<longrightarrow>
         Retry f [Unavailable] Minute (nth_backoff main_backoff k) now k =
           Retry f [Unavailable] Minute (nth_backoff main_backoff (Suc k))
             (now + nth_pause main_backoff k) (Suc k)) \<and>
      (Minute \<le> now + nth_pause main_backoff k \<longrightarrow>
         Retry f [Unavailable] Minute (nth_backoff main_backoff k) now k =
           Some (f k, nth_backoff main_backoff (Suc k), Minute, Suc k))"
    using Retry_nth_again[of f _ "[Unavailable]" _ main_backoff Minute]
      Retry_nth_deadline[of f _ "[Unavailable]" Minute _ main_backoff]
    by blast
  show ?thesis
    by (rule conjI[OF params(1) conjI[OF params(2) conjI[OF params(3) conjI[OF params(4)
          conjI[OF params(5) conjI[OF params(6) conjI[OF nth_pause_0 conjI[OF step
          conjI[OF mono conjI[OF below conjI[OF cap conjI[OF loop main_retry_returns]]]]]]]]]]]])
qed

theorem backoff_parameters_and_deadline_witness:
  "nth_pause main_backoff 17 = 985261177 \<and> (17 :: nat) < 18 \<and>
   nth_pause main_backoff 17 < Second \<and>
   (18 :: nat) \<le> 18 \<and> nth_pause main_backoff 18 = Second \<and>
   IsRetryable (Some (Errorf Unavailable [])) [Unavailable] \<and>
   0 + nth_pause main_backoff 0 < Minute \<and>
   Retry (\<lambda>k. Some (Errorf Unavailable [])) [Unavailable] Minute (nth_backoff main_backoff 0) 0 0 =
     Retry (\<lambda>k. Some (Errorf Unavailable [])) [Unavailable] Minute (nth_backoff main_backoff 1)
       Millisecond 1 \<and>
   Minute \<le> Minute + nth_pause main_backoff 0 \<and>
   Retry (\<lambda>k. Some (Errorf Unavailable [])) [Unavailable] Minute (nth_backoff main_backoff 0)
     Minute 0 =
     Some (Some (Errorf Unavailable []), nth_backoff main_backoff 1, Minute, 1) \<and>
   main_retry_GetDirectory (\<lambda>k. Some (Errorf Unavailable [])) =
     Some (Some (Errorf Unavailable []),
           \<lparr>MinD = 1000000, MaxD = 1000000000, Factor = 3 / 2, delta = 999000000\<rparr>,
           60000000000, 76)"
proof -
  have r: "IsRetryable (Some (Errorf Unavailable [])) [Unavailable]"
    by (simp add: IsRetryable_def Errorf_def)
  note t = backoff_parameters_and_deadline[of "\<lambda>k. Some (Errorf Unavailable [])"]
  have p0: "nth_pause main_backoff 0 = Millisecond" using t by blast
  have below: "nth_pause main_backoff 17 < Second" using t by simp
  have cap: "nth_pause main_backoff 18 = Second" using t by simp
  have loop: "\<And>k now. (now + nth_pause main_backoff k < Minute \<longrightarrow>
         Retry (\<lambda>k. Some (Errorf Unavailable [])) [Unavailable] Minute
           (nth_backoff main_backoff k) now k =
           Retry (\<lambda>k. Some (Errorf Unavailable [])) [Unavailable] Minute
             (nth_backoff main_backoff (Suc k)) (now + nth_pause main_backoff k) (Suc k)) \<and>
      (Minute \<le> now + nth_pause main_backoff k \<longrightarrow>
         Retry (\<lambda>k. Some (Errorf Unavailable [])) [Unavailable] Minute
           (nth_backoff main_backoff k) now k =
           Some (Some (Errorf Unavailable []), nth_backoff main_backoff (Suc k), Minute, Suc k))"
    using t r by blast
  have l1: "Retry (\<lambda>k. Some (Errorf Unavailable [])) [Unavailable] Minute
              (nth_backoff main_backoff 0) 0 0 =
     Retry (\<lambda>k. Some (Errorf Unavailable [])) [Unavailable] Minute (nth_backoff main_backoff 1)
       Millisecond 1"
    using loop[of 0 0] p0 by (simp add: durations)
  have l2: "Retry (\<lambda>k. Some (Errorf Unavailable [])) [Unavailable] Minute
              (nth_backoff main_backoff 0) Minute 0 =
     Some (Some (Errorf Unavailable []), nth_backoff main_backoff 1, Minute, 1)"
    using loop[of Minute 0] p0 by (simp add: durations)
  show ?thesis
    using r p0 below cap l1 l2 all_unavailable nth_pause_values(1)
    by (simp add: durations)
qed

end
